theory Spec2Isabelle
  imports
    Complex_Main
    "HOL-Library.AList"
    "HOL-Library.Char_ord"
    "HOL-Library.List_Lexorder"
begin

section \<open>JavaScript strings\<close>

text \<open>
  Strings are lists of characters. The model works on ASCII text: \<open>toLowerCase\<close> maps the
  letters A to Z, and \<open>trim\<close> strips the ASCII white space characters (space, tab, line feed,
  vertical tab, form feed, carriage return).
\<close>

definition toLowerChar :: "char \<Rightarrow> char" where
  "toLowerChar c =
     (case map_of (zip ''ABCDEFGHIJKLMNOPQRSTUVWXYZ'' ''abcdefghijklmnopqrstuvwxyz'') c of
        Some d \<Rightarrow> d
      | None \<Rightarrow> c)"

definition toLowerCase :: "string \<Rightarrow> string" where
  "toLowerCase s = map toLowerChar s"

definition isSpace :: "char \<Rightarrow> bool" where
  "isSpace c = (c \<in> set [CHR '' '', CHR 0x09, CHR 0x0A, CHR 0x0B, CHR 0x0C, CHR 0x0D])"

definition trim :: "string \<Rightarrow> string" where
  "trim s = rev (dropWhile isSpace (rev (dropWhile isSpace s)))"

fun startsWith :: "string \<Rightarrow> string \<Rightarrow> bool" where
  "startsWith s [] = True"
| "startsWith [] (c # n) = False"
| "startsWith (d # s) (c # n) = (d = c \<and> startsWith s n)"

text \<open>\<open>includesStr s n\<close> is \<open>s.includes(n)\<close>: \<open>n\<close> occurs in \<open>s\<close> as a contiguous substring.\<close>

fun includesStr :: "string \<Rightarrow> string \<Rightarrow> bool" where
  "includesStr [] n = (n = [])"
| "includesStr (c # s) n = (startsWith (c # s) n \<or> includesStr s n)"

text \<open>\<open>xs.join(sep)\<close>.\<close>

fun join :: "string \<Rightarrow> string list \<Rightarrow> string" where
  "join sep [] = []"
| "join sep [x] = x"
| "join sep (x # y # ys) = x @ sep @ join sep (y # ys)"

text \<open>
  A value that is a string, \<open>null\<close> or \<open>undefined\<close>, for the one field (\<open>releaseDate\<close>)
  that the code both tests for truthiness and prints in a template literal.
\<close>

datatype jsstr = Undefined | Null | Str string

fun render :: "jsstr \<Rightarrow> string" where
  "render Undefined = ''undefined''"
| "render Null = ''null''"
| "render (Str s) = s"

text \<open>
  For the other optional fields \<open>None\<close> stands for \<open>null\<close> or \<open>undefined\<close>. A string is
  truthy when it is present and not empty; an array is truthy whenever it is present.
\<close>

fun truthy :: "string option \<Rightarrow> bool" where
  "truthy None = False"
| "truthy (Some s) = (s \<noteq> [])"

fun orEmpty :: "string option \<Rightarrow> string" where
  "orEmpty None = []"
| "orEmpty (Some s) = s"

section \<open>Candidates\<close>

record data_source =
  primary :: "string option"
  attribution :: "string option"
  fallback :: "string option"
  wikipediaAttribution :: "string option"

record search_metadata =
  source :: "string option"
  query :: "string option"
  timestamp :: "int option"
  confidence :: "rat option"
  enhancedWithWikipedia :: "bool option"

text \<open>
  The fields of a search result that the search manager reads or writes. Confidence scores
  are JavaScript numbers; the model computes them exactly, as rationals.
\<close>

record candidate =
  ident :: "string option"
  title :: "string option"
  releaseDate :: jsstr
  developer :: "string option"
  publisher :: "string option"
  platforms :: "string list option"
  genre :: "string list option"
  coverImage :: "string option"
  description :: "string option"
  series :: "string option"
  modes :: "string list option"
  wikidataId :: "string option"
  dataSource :: "data_source option"
  searchMetadata :: "search_metadata option"

definition emptyDataSource :: data_source where
  "emptyDataSource =
     \<lparr>primary = None, attribution = None, fallback = None, wikipediaAttribution = None\<rparr>"

definition emptySearchMetadata :: search_metadata where
  "emptySearchMetadata =
     \<lparr>source = None, query = None, timestamp = None, confidence = None,
      enhancedWithWikipedia = None\<rparr>"

section \<open>Confidence scoring\<close>

text \<open>\<open>calculateDataCompleteness\<close>: the filled fraction of an eight-field checklist.\<close>

definition nonEmptyArray :: "string list option \<Rightarrow> bool" where
  "nonEmptyArray a = (case a of None \<Rightarrow> False | Some xs \<Rightarrow> length xs > 0)"

definition completenessFields :: "candidate \<Rightarrow> bool list" where
  "completenessFields result =
     [truthy (title result),
      (case releaseDate result of Str s \<Rightarrow> s \<noteq> [] | _ \<Rightarrow> False),
      truthy (developer result),
      truthy (publisher result),
      nonEmptyArray (platforms result),
      nonEmptyArray (genre result),
      truthy (coverImage result),
      truthy (description result)]"

definition calculateDataCompleteness :: "candidate \<Rightarrow> rat" where
  "calculateDataCompleteness result =
     of_nat (length (filter (\<lambda>field. field) (completenessFields result)))
       / of_nat (length (completenessFields result))"

definition calculateWikidataConfidence :: "candidate \<Rightarrow> string \<Rightarrow> rat" where
  "calculateWikidataConfidence result q =
     (let queryLower = toLowerCase q;
          titleLower = toLowerCase (orEmpty (title result));
          c1 = (if titleLower = queryLower then 5 / 10
                else if includesStr titleLower queryLower \<or> includesStr queryLower titleLower
                  then 3 / 10
                else 0);
          c2 = c1 + calculateDataCompleteness result * (3 / 10);
          c3 = (if truthy (wikidataId result) then c2 + 2 / 10 else c2)
      in min c3 1)"

definition calculateWikipediaConfidence :: "candidate \<Rightarrow> string \<Rightarrow> rat" where
  "calculateWikipediaConfidence result q =
     (let queryLower = toLowerCase q;
          titleLower = toLowerCase (orEmpty (title result));
          c1 = (if titleLower = queryLower then 4 / 10
                else if includesStr titleLower queryLower \<or> includesStr queryLower titleLower
                  then 25 / 100
                else 0);
          c2 = c1 + calculateDataCompleteness result * (25 / 100);
          c3 = (if (case dataSource result of None \<Rightarrow> False | Some d \<Rightarrow> truthy (attribution d))
                then c2 + 15 / 100 else c2);
          c4 = (if truthy (description result) \<and> length (orEmpty (description result)) > 50
                then c3 + 2 / 10 else c3)
      in min c4 1)"

text \<open>\<open>result.searchMetadata?.confidence || 0\<close>.\<close>

definition confidenceOf :: "candidate \<Rightarrow> rat" where
  "confidenceOf result =
     (case searchMetadata result of
        None \<Rightarrow> 0
      | Some m \<Rightarrow> (case confidence m of None \<Rightarrow> 0 | Some c \<Rightarrow> c))"

definition hasGoodQualityResults :: "candidate list \<Rightarrow> bool" where
  "hasGoodQualityResults results =
     (if length results = 0 then False
      else list_ex (\<lambda>result. confidenceOf result > 7 / 10
                              \<and> calculateDataCompleteness result > 5 / 10) results)"

section \<open>Similarity\<close>

definition isDigit :: "char \<Rightarrow> bool" where
  "isDigit c = (c \<in> set ''0123456789'')"

definition digitValue :: "char \<Rightarrow> nat" where
  "digitValue c = (case map_of (zip ''0123456789'' [0, 1, 2, 3, 4, 5, 6, 7, 8, 9]) c of
                     Some n \<Rightarrow> n | None \<Rightarrow> 0)"

text \<open>The first run of four digits, as the pattern \<open>/(\d{4})/\<close> finds it, read by \<open>parseInt\<close>.\<close>

fun matchYear :: "string \<Rightarrow> nat option" where
  "matchYear (a # b # c # d # rest) =
     (if isDigit a \<and> isDigit b \<and> isDigit c \<and> isDigit d
      then Some (digitValue a * 1000 + digitValue b * 100 + digitValue c * 10 + digitValue d)
      else matchYear (b # c # d # rest))"
| "matchYear s = None"

fun extractYear :: "jsstr \<Rightarrow> nat option" where
  "extractYear (Str s) = (if s = [] then None else matchYear s)"
| "extractYear d = None"

definition platformSet :: "candidate \<Rightarrow> string list" where
  "platformSet result =
     remdups (map toLowerCase (case platforms result of None \<Rightarrow> [] | Some ps \<Rightarrow> ps))"

text \<open>
  \<open>areResultsSimilar\<close>. The test \<open>year1 && year2\<close> is a truthiness test on numbers, so a
  year that parses to 0 counts as absent.
\<close>

definition areResultsSimilar :: "candidate \<Rightarrow> candidate \<Rightarrow> bool" where
  "areResultsSimilar result1 result2 =
     (let title1 = trim (toLowerCase (orEmpty (title result1)));
          title2 = trim (toLowerCase (orEmpty (title result2)))
      in if title1 = title2 then True
         else if includesStr title1 title2 \<or> includesStr title2 title1 then True
         else
           (let year1 = extractYear (releaseDate result1);
                year2 = extractYear (releaseDate result2)
            in if year1 \<noteq> None \<and> year1 \<noteq> Some 0 \<and> year2 \<noteq> None \<and> year2 \<noteq> Some 0
                  \<and> year1 = year2
               then
                 (let platforms1 = platformSet result1;
                      platforms2 = platformSet result2;
                      commonPlatforms = filter (\<lambda>p. p \<in> set platforms2) platforms1
                  in length commonPlatforms > 0)
               else False))"

section \<open>Merging the two sources\<close>

text \<open>
  \<open>enhanceResultWithWikipediaData\<close> assigns to fields of its first argument. The model
  returns that object as it is after the call; the second argument is only read.
\<close>

definition enhanceResultWithWikipediaData :: "candidate \<Rightarrow> candidate \<Rightarrow> candidate" where
  "enhanceResultWithWikipediaData wikidataResult wikipediaResult =
     (let r1 = (if \<not> truthy (description wikidataResult) \<and> truthy (description wikipediaResult)
                then wikidataResult\<lparr>description := description wikipediaResult\<rparr>
                else wikidataResult);
          r2 = (case dataSource wikipediaResult of
                  None \<Rightarrow> r1
                | Some d \<Rightarrow>
                    if truthy (attribution d)
                    then r1\<lparr>dataSource :=
                           Some ((case dataSource r1 of None \<Rightarrow> emptyDataSource | Some x \<Rightarrow> x)
                                   \<lparr>fallback := Some ''wikipedia'',
                                    wikipediaAttribution := attribution d\<rparr>)\<rparr>
                    else r1);
          r3 = (if truthy (series wikipediaResult) \<and> \<not> truthy (series r2)
                then r2\<lparr>series := series wikipediaResult\<rparr>
                else r2);
          r4 = (if modes wikipediaResult \<noteq> None
                   \<and> (case modes r3 of None \<Rightarrow> True | Some ms \<Rightarrow> length ms = 0)
                then r3\<lparr>modes := modes wikipediaResult\<rparr>
                else r3)
      in r4\<lparr>searchMetadata :=
              Some ((case searchMetadata r4 of None \<Rightarrow> emptySearchMetadata | Some m \<Rightarrow> m)
                      \<lparr>enhancedWithWikipedia := Some True\<rparr>)\<rparr>)"

text \<open>
  \<open>xs.find(P)\<close> followed by an assignment to the object found: the first element that
  satisfies \<open>P\<close> is replaced by its new state.
\<close>

fun updateFirst :: "('a \<Rightarrow> bool) \<Rightarrow> ('a \<Rightarrow> 'a) \<Rightarrow> 'a list \<Rightarrow> 'a list" where
  "updateFirst P f [] = []"
| "updateFirst P f (x # xs) = (if P x then f x # xs else x # updateFirst P f xs)"

text \<open>
  The \<open>forEach\<close> of \<open>mergeSearchResults\<close>. \<open>mergedResults\<close> starts as a shallow copy of
  \<open>wikidataResults\<close>, so its first entries are the very objects that the enhancement
  assigns to, and \<open>push\<close> only adds behind them. The loop state is therefore the current
  state of the objects of \<open>wikidataResults\<close> (taken to be pairwise distinct objects, as
  \<open>executeWikidataSearch\<close> builds them) and the entries pushed so far.
\<close>

fun mergeLoop ::
  "candidate list \<Rightarrow> candidate list \<Rightarrow> candidate list \<Rightarrow> candidate list \<times> candidate list" where
  "mergeLoop wikidataResults pushed [] = (wikidataResults, pushed)"
| "mergeLoop wikidataResults pushed (wikipediaResult # rest) =
     (let isDuplicate =
            list_ex (\<lambda>wikidataResult. areResultsSimilar wikidataResult wikipediaResult)
              wikidataResults
      in if \<not> isDuplicate
         then mergeLoop wikidataResults (pushed @ [wikipediaResult]) rest
         else mergeLoop
                (updateFirst (\<lambda>wikidataResult. areResultsSimilar wikidataResult wikipediaResult)
                   (\<lambda>matchingResult.
                      enhanceResultWithWikipediaData matchingResult wikipediaResult)
                   wikidataResults)
                pushed rest)"

definition mergeSearchResults :: "candidate list \<Rightarrow> candidate list \<Rightarrow> candidate list" where
  "mergeSearchResults wikidataResults wikipediaResults =
     (case mergeLoop wikidataResults [] wikipediaResults of
        (wikidataResults', pushed) \<Rightarrow> wikidataResults' @ pushed)"

text \<open>The objects of \<open>wikidataResults\<close> as the caller finds them after the merge.\<close>

definition wikidataResultsAfterMerge :: "candidate list \<Rightarrow> candidate list \<Rightarrow> candidate list" where
  "wikidataResultsAfterMerge wikidataResults wikipediaResults =
     fst (mergeLoop wikidataResults [] wikipediaResults)"

section \<open>Deduplication and ranking\<close>

text \<open>
  \<open>removeDuplicates\<close> builds its key with \<open>(result.platforms || []).sort()\<close>, and \<open>sort\<close>
  works in place: every result the filter visits leaves with its platforms in sorted order.
\<close>

definition sortPlatforms :: "candidate \<Rightarrow> candidate" where
  "sortPlatforms result =
     (case platforms result of
        None \<Rightarrow> result
      | Some ps \<Rightarrow> result\<lparr>platforms := Some (sort ps)\<rparr>)"

definition dedupKey :: "candidate \<Rightarrow> string" where
  "dedupKey result =
     (case title result of None \<Rightarrow> ''undefined'' | Some t \<Rightarrow> toLowerCase t)
     @ ''_'' @ render (releaseDate result)
     @ ''_'' @ join '','' (sort (case platforms result of None \<Rightarrow> [] | Some ps \<Rightarrow> ps))"

fun removeDuplicatesLoop :: "string list \<Rightarrow> candidate list \<Rightarrow> candidate list" where
  "removeDuplicatesLoop seen [] = []"
| "removeDuplicatesLoop seen (result # rest) =
     (let key = dedupKey result
      in if key \<in> set seen then removeDuplicatesLoop seen rest
         else sortPlatforms result # removeDuplicatesLoop (key # seen) rest)"

definition removeDuplicates :: "candidate list \<Rightarrow> candidate list" where
  "removeDuplicates results = removeDuplicatesLoop [] results"

text \<open>The objects of the argument array as the caller finds them after \<open>removeDuplicates\<close>.\<close>

definition resultsAfterRemoveDuplicates :: "candidate list \<Rightarrow> candidate list" where
  "resultsAfterRemoveDuplicates results = map sortPlatforms results"

definition sourceScore :: "candidate \<Rightarrow> rat" where
  "sourceScore result =
     (case searchMetadata result of
        None \<Rightarrow> 0
      | Some m \<Rightarrow> if source m = Some ''wikidata'' then 1 else 0)"

text \<open>The comparison function handed to \<open>sort\<close> in \<open>rankAndDeduplicateResults\<close>.\<close>

definition compareResults :: "candidate \<Rightarrow> candidate \<Rightarrow> rat" where
  "compareResults a b =
     (let confidenceDiff = confidenceOf b - confidenceOf a
      in if \<bar>confidenceDiff\<bar> > 1 / 10 then confidenceDiff
         else
           (let completenessA = calculateDataCompleteness a;
                completenessB = calculateDataCompleteness b;
                completenessDiff = completenessB - completenessA
            in if \<bar>completenessDiff\<bar> > 1 / 10 then completenessDiff
               else sourceScore b - sourceScore a))"

text \<open>
  \<open>Array.prototype.sort\<close> with a comparison function, as a stable insertion sort: each element
  in turn moves left past the elements that compare greater than it. The tie bands make
  \<open>compareResults\<close> non-transitive, and for such a comparison function the language
  leaves the resulting order to the engine; insertion is what engines do on short arrays.
  \<open>insertBack\<close> works on the sorted prefix in reverse, nearest element first.
\<close>

fun insertBack :: "('a \<Rightarrow> 'a \<Rightarrow> rat) \<Rightarrow> 'a \<Rightarrow> 'a list \<Rightarrow> 'a list" where
  "insertBack cmp x [] = [x]"
| "insertBack cmp x (y # ys) = (if cmp y x > 0 then y # insertBack cmp x ys else x # y # ys)"

definition arraySort :: "('a \<Rightarrow> 'a \<Rightarrow> rat) \<Rightarrow> 'a list \<Rightarrow> 'a list" where
  "arraySort cmp xs = rev (foldl (\<lambda>sorted x. insertBack cmp x sorted) [] xs)"

definition rankAndDeduplicateResults :: "candidate list \<Rightarrow> candidate list" where
  "rankAndDeduplicateResults results =
     (let uniqueResults = removeDuplicates results
      in take 10 (arraySort compareResults uniqueResults))"

section \<open>The search manager\<close>

datatype error = Error string

text \<open>
  The two services are the environment of a search: \<open>searchGameByTitle\<close> of the Wikidata
  service and \<open>extractGameMetadata\<close> of the Wikipedia service either throw (\<open>Inl\<close>) or
  return. \<open>generateSearchResultId\<close> draws on the clock and on \<open>Math.random\<close>, so the
  identifier it returns comes from the environment as well.
\<close>

record env =
  searchGameByTitle :: "string \<Rightarrow> error + candidate list"
  extractGameMetadata :: "string \<Rightarrow> error + candidate option"
  generateSearchResultId :: string

datatype adapter_call = WikidataCall string | WikipediaCall string

record cache_entry =
  cachedResults :: "candidate list"
  cachedAt :: int

text \<open>
  The state of a \<open>SearchManager\<close>: \<open>searchCache\<close>, a \<open>Map\<close> in insertion order, and the
  log of the calls made to the two services. \<open>cachedResults\<close> and \<open>cachedAt\<close> are the
  \<open>results\<close> and the \<open>timestamp\<close> of a cache entry.
\<close>

record state =
  searchCache :: "(string \<times> cache_entry) list"
  calls :: "adapter_call list"

definition cacheTimeout :: int where
  "cacheTimeout = 5 * 60 * 1000"

text \<open>In the functions below \<open>now\<close> is the value of \<open>Date.now()\<close> during the call.\<close>

definition executeWikidataSearch ::
  "env \<Rightarrow> int \<Rightarrow> state \<Rightarrow> string \<Rightarrow> candidate list \<times> state" where
  "executeWikidataSearch e now st q =
     (let st' = st\<lparr>calls := calls st @ [WikidataCall q]\<rparr>
      in case searchGameByTitle e q of
           Inl err \<Rightarrow> ([], st')
         | Inr rs \<Rightarrow>
             (map (\<lambda>result.
                     result\<lparr>searchMetadata :=
                       Some \<lparr>source = Some ''wikidata'', query = Some q, timestamp = Some now,
                             confidence = Some (calculateWikidataConfidence result q),
                             enhancedWithWikipedia = None\<rparr>\<rparr>) rs,
              st'))"

definition executeFallbackSearch ::
  "env \<Rightarrow> int \<Rightarrow> state \<Rightarrow> string \<Rightarrow> candidate list \<times> state" where
  "executeFallbackSearch e now st q =
     (let st' = st\<lparr>calls := calls st @ [WikipediaCall q]\<rparr>
      in case extractGameMetadata e q of
           Inl err \<Rightarrow> ([], st')
         | Inr None \<Rightarrow> ([], st')
         | Inr (Some result) \<Rightarrow>
             ([result\<lparr>ident := Some (generateSearchResultId e),
                      searchMetadata :=
                        Some \<lparr>source = Some ''wikipedia'', query = Some q, timestamp = Some now,
                              confidence = Some (calculateWikipediaConfidence result q),
                              enhancedWithWikipedia = None\<rparr>\<rparr>],
              st'))"

definition cleanCache :: "int \<Rightarrow> state \<Rightarrow> state" where
  "cleanCache now st =
     st\<lparr>searchCache :=
          filter (\<lambda>(key, val). \<not> (now - cachedAt val > cacheTimeout)) (searchCache st)\<rparr>"

definition cacheResult :: "int \<Rightarrow> state \<Rightarrow> string \<Rightarrow> candidate list \<Rightarrow> state" where
  "cacheResult now st q rs =
     (let cacheKey = trim (toLowerCase q)
      in cleanCache now
           (st\<lparr>searchCache :=
                 AList.update cacheKey \<lparr>cachedResults = rs, cachedAt = now\<rparr> (searchCache st)\<rparr>))"

definition getCachedResult :: "int \<Rightarrow> state \<Rightarrow> string \<Rightarrow> candidate list option \<times> state" where
  "getCachedResult now st q =
     (let cacheKey = trim (toLowerCase q)
      in case map_of (searchCache st) cacheKey of
           None \<Rightarrow> (None, st)
         | Some cached \<Rightarrow>
             if now - cachedAt cached > cacheTimeout
             then (None, st\<lparr>searchCache := AList.delete cacheKey (searchCache st)\<rparr>)
             else (Some (cachedResults cached), st))"

text \<open>
  The body of the outer \<open>try\<close> of \<open>searchGame\<close>. It returns \<open>Inl\<close> when an exception
  leaves it. Both services are called through wrappers that catch whatever they throw, and
  the remaining steps are total on candidates of the types above, so no such case arises here.
\<close>

definition searchGamePrimary ::
  "env \<Rightarrow> int \<Rightarrow> state \<Rightarrow> string \<Rightarrow> error + candidate list \<times> state" where
  "searchGamePrimary e now st normalizedQuery =
     (case executeWikidataSearch e now st normalizedQuery of
        (wikidataResults, st1) \<Rightarrow>
          if length wikidataResults > 0 \<and> hasGoodQualityResults wikidataResults
          then (let rs = rankAndDeduplicateResults wikidataResults
                in Inr (rs, cacheResult now st1 normalizedQuery rs))
          else
            (case executeFallbackSearch e now st1 normalizedQuery of
               (wikipediaResults, st2) \<Rightarrow>
                 (let mergedResults = mergeSearchResults wikidataResults wikipediaResults;
                      finalResults = rankAndDeduplicateResults mergedResults
                  in Inr (finalResults, cacheResult now st2 normalizedQuery finalResults))))"

text \<open>The body of the \<open>try\<close> inside the \<open>catch\<close> block: Wikipedia as the last resort.\<close>

definition searchGameLastResort ::
  "env \<Rightarrow> int \<Rightarrow> state \<Rightarrow> string \<Rightarrow> error + candidate list \<times> state" where
  "searchGameLastResort e now st normalizedQuery =
     (case executeFallbackSearch e now st normalizedQuery of
        (wikipediaResults, st1) \<Rightarrow>
          (let rs = rankAndDeduplicateResults wikipediaResults
           in Inr (rs, cacheResult now st1 normalizedQuery rs)))"

definition searchGame :: "env \<Rightarrow> int \<Rightarrow> state \<Rightarrow> string \<Rightarrow> candidate list \<times> state" where
  "searchGame e now st q =
     (if q = [] \<or> length (trim q) < 2 then ([], st)
      else
        (let normalizedQuery = trim q
         in case getCachedResult now st normalizedQuery of
              (Some cachedResult, st0) \<Rightarrow> (cachedResult, st0)
            | (None, st0) \<Rightarrow>
                (case searchGamePrimary e now st0 normalizedQuery of
                   Inr r \<Rightarrow> r
                 | Inl err \<Rightarrow>
                     (case searchGameLastResort e now st0 normalizedQuery of
                        Inr r \<Rightarrow> r
                      | Inl fallbackError \<Rightarrow> ([], st0)))))"

section \<open>The Wikipedia service\<close>

record search_hit =
  hitTitle :: string
  snippet :: string

record page_content =
  pageTitle :: "string option"
  extractText :: "string option"
  image :: "string option"
  url :: "string option"

text \<open>
  The object that \<open>parseInfoBoxFields\<close> fills, restricted to the fields that reach a
  candidate. The empty object \<open>{}\<close> has no field.
\<close>

record infobox =
  infoTitle :: "string option"
  infoDeveloper :: "string option"
  infoPublisher :: "string option"
  infoReleaseDate :: "string option"
  infoPlatforms :: "string list option"
  infoGenre :: "string list option"
  infoModes :: "string list option"
  infoSeries :: "string option"

definition emptyInfobox :: infobox where
  "emptyInfobox =
     \<lparr>infoTitle = None, infoDeveloper = None, infoPublisher = None, infoReleaseDate = None,
      infoPlatforms = None, infoGenre = None, infoModes = None, infoSeries = None\<rparr>"

text \<open>
  The network and the regular-expression engine are the environment of the service: the three
  MediaWiki requests throw or return; \<open>matchPattern i w\<close> is \<open>w.match(infoboxPatterns[i])\<close>,
  the list of all matches of a global pattern, empty for \<open>null\<close>; \<open>parseInfoBoxFields\<close>
  reads the fields of an infobox text.
\<close>

record wikipedia_env =
  searchGamePages :: "string \<Rightarrow> error + search_hit list"
  getPageContent :: "string \<Rightarrow> error + page_content"
  getPageWikitext :: "string \<Rightarrow> error + string"
  matchPattern :: "nat \<Rightarrow> string \<Rightarrow> string list"
  parseInfoBoxFields :: "string \<Rightarrow> infobox"

definition gameKeywords :: "string list" where
  "gameKeywords = [''video game'', ''game'', ''developed'', ''published'', ''platform'', ''console'']"

definition hitScore :: "string \<Rightarrow> search_hit \<Rightarrow> nat" where
  "hitScore gameTitle result =
     (if toLowerCase (hitTitle result) = toLowerCase gameTitle then 100 else 0)
     + (if includesStr (toLowerCase (hitTitle result)) (toLowerCase gameTitle) then 50 else 0)
     + 10 * length (filter (\<lambda>keyword. includesStr (toLowerCase (snippet result)) keyword)
                      gameKeywords)"

definition findGamePage :: "wikipedia_env \<Rightarrow> string \<Rightarrow> search_hit option" where
  "findGamePage w gameTitle =
     (case searchGamePages w gameTitle of
        Inl err \<Rightarrow> None
      | Inr searchResults \<Rightarrow>
          if length searchResults = 0 then None
          else
            (let scoredResults = map (\<lambda>result. (result, hitScore gameTitle result)) searchResults;
                 sorted = arraySort (\<lambda>a b. of_nat (snd b) - of_nat (snd a)) scoredResults
             in case sorted of
                  [] \<Rightarrow> None
                | (result, score) # rest \<Rightarrow> if score > 0 then Some result else None))"

text \<open>
  The loop over the four infobox patterns stops at the first pattern that matches and takes
  element 1 of the match array.
\<close>

fun infoboxContent :: "wikipedia_env \<Rightarrow> string \<Rightarrow> nat list \<Rightarrow> string option" where
  "infoboxContent w wikitext [] = None"
| "infoboxContent w wikitext (pattern # patterns) =
     (case matchPattern w pattern wikitext of
        [] \<Rightarrow> infoboxContent w wikitext patterns
      | [m0] \<Rightarrow> None
      | m0 # m1 # ms \<Rightarrow> Some m1)"

definition parseInfoBox :: "wikipedia_env \<Rightarrow> string \<Rightarrow> infobox" where
  "parseInfoBox w wikitext =
     (case infoboxContent w wikitext [0, 1, 2, 3] of
        None \<Rightarrow> emptyInfobox
      | Some content \<Rightarrow> if content = [] then emptyInfobox else parseInfoBoxFields w content)"

definition arrayOrEmpty :: "string list option \<Rightarrow> string list" where
  "arrayOrEmpty a = (case a of None \<Rightarrow> [] | Some xs \<Rightarrow> xs)"

definition mapToGameDataModel :: "infobox \<Rightarrow> page_content \<Rightarrow> candidate" where
  "mapToGameDataModel infoboxData pageData =
     \<lparr>ident = None,
      title = (if truthy (infoTitle infoboxData) then infoTitle infoboxData
               else pageTitle pageData),
      releaseDate = Str (orEmpty (infoReleaseDate infoboxData)),
      developer = Some (orEmpty (infoDeveloper infoboxData)),
      publisher = Some (orEmpty (infoPublisher infoboxData)),
      platforms = Some (arrayOrEmpty (infoPlatforms infoboxData)),
      genre = Some (arrayOrEmpty (infoGenre infoboxData)),
      coverImage = Some (orEmpty (image pageData)),
      description = Some (orEmpty (extractText pageData)),
      series = Some (orEmpty (infoSeries infoboxData)),
      modes = Some (arrayOrEmpty (infoModes infoboxData)),
      wikidataId = None,
      dataSource = Some \<lparr>primary = Some ''wikipedia'', attribution = url pageData,
                         fallback = None, wikipediaAttribution = None\<rparr>,
      searchMetadata = None\<rparr>"

text \<open>\<open>WikipediaService.extractGameMetadata\<close>: every exception ends in \<open>null\<close>.\<close>

definition wikipediaExtractGameMetadata :: "wikipedia_env \<Rightarrow> string \<Rightarrow> candidate option" where
  "wikipediaExtractGameMetadata w gameTitle =
     (case findGamePage w gameTitle of
        None \<Rightarrow> None
      | Some gamePage \<Rightarrow>
          (case getPageContent w (hitTitle gamePage) of
             Inl err \<Rightarrow> None
           | Inr pageContent \<Rightarrow>
               (case getPageWikitext w (hitTitle gamePage) of
                  Inl err \<Rightarrow> None
                | Inr wikitext \<Rightarrow>
                    Some (mapToGameDataModel (parseInfoBox w wikitext) pageContent))))"

text \<open>The search manager's environment when its Wikipedia service is the one above.\<close>

definition withWikipediaService :: "wikipedia_env \<Rightarrow> env \<Rightarrow> env" where
  "withWikipediaService w e =
     e\<lparr>extractGameMetadata := (\<lambda>q. Inr (wikipediaExtractGameMetadata w q))\<rparr>"

section \<open>The Wikidata service\<close>

text \<open>
  One row of a SPARQL result: for each variable the \<open>value\<close> of its binding, \<open>None\<close> when
  the row does not bind the variable.
\<close>

record sparql_binding =
  wikidataIdVar :: "string option"
  gameVar :: "string option"
  gameLabelVar :: "string option"
  releaseDateVar :: "string option"
  platformLabelVar :: "string option"
  developerLabelVar :: "string option"
  publisherLabelVar :: "string option"
  imageVar :: "string option"
  descriptionVar :: "string option"

definition extractValue :: "string option \<Rightarrow> string option" where
  "extractValue b = (if truthy b then b else None)"

text \<open>
  \<open>parseDate\<close> hands the text to the \<open>Date\<close> constructor of the engine; \<open>dateToISO\<close>
  stands for that step (\<open>None\<close> for an invalid date).
\<close>

definition parseDate :: "(string \<Rightarrow> string option) \<Rightarrow> string option \<Rightarrow> string option" where
  "parseDate dateToISO dateString =
     (case dateString of
        None \<Rightarrow> None
      | Some s \<Rightarrow> if s = [] then None else dateToISO s)"

text \<open>A \<open>Set\<close> of strings in insertion order.\<close>

definition setAdd :: "string \<Rightarrow> string list \<Rightarrow> string list" where
  "setAdd x xs = (if x \<in> set xs then xs else xs @ [x])"

text \<open>The entries of \<open>gameMap\<close>, restricted to the fields that reach a candidate.\<close>

record parsed_game =
  gameId :: string
  gameTitle :: string
  gameReleaseDate :: "string option"
  gamePlatforms :: "string list"
  gameDevelopers :: "string list"
  gamePublishers :: "string list"
  gameCoverImage :: "string option"
  gameDescription :: "string option"

definition addRow :: "sparql_binding \<Rightarrow> parsed_game \<Rightarrow> parsed_game" where
  "addRow b game =
     (let g1 = (case extractValue (platformLabelVar b) of
                  None \<Rightarrow> game
                | Some platform \<Rightarrow> game\<lparr>gamePlatforms := setAdd platform (gamePlatforms game)\<rparr>);
          g2 = (case extractValue (developerLabelVar b) of
                  None \<Rightarrow> g1
                | Some dev \<Rightarrow> g1\<lparr>gameDevelopers := setAdd dev (gameDevelopers g1)\<rparr>)
      in case extractValue (publisherLabelVar b) of
           None \<Rightarrow> g2
         | Some pub \<Rightarrow> g2\<lparr>gamePublishers := setAdd pub (gamePublishers g2)\<rparr>)"

fun groupRows ::
  "(string \<Rightarrow> string option) \<Rightarrow> (string \<times> parsed_game) list \<Rightarrow> sparql_binding list
     \<Rightarrow> (string \<times> parsed_game) list" where
  "groupRows dateToISO gameMap [] = gameMap"
| "groupRows dateToISO gameMap (b # bs) =
     (case (extractValue (wikidataIdVar b), extractValue (gameVar b)) of
        (Some wid, Some gameUri) \<Rightarrow>
          (let gameMap1 =
                 (if map_of gameMap wid = None
                  then AList.update wid
                         \<lparr>gameId = wid,
                          gameTitle = (case extractValue (gameLabelVar b) of
                                         None \<Rightarrow> ''Unknown Title'' | Some label \<Rightarrow> label),
                          gameReleaseDate = parseDate dateToISO (extractValue (releaseDateVar b)),
                          gamePlatforms = [], gameDevelopers = [], gamePublishers = [],
                          gameCoverImage = extractValue (imageVar b),
                          gameDescription = extractValue (descriptionVar b)\<rparr> gameMap
                  else gameMap)
           in groupRows dateToISO (AList.map_entry wid (addRow b) gameMap1) bs)
      | _ \<Rightarrow> groupRows dateToISO gameMap bs)"

text \<open>\<open>parseWikidataResponse\<close>; the response is \<open>None\<close> when it has no \<open>results.bindings\<close>.\<close>

definition parseWikidataResponse ::
  "(string \<Rightarrow> string option) \<Rightarrow> sparql_binding list option \<Rightarrow> parsed_game list" where
  "parseWikidataResponse dateToISO response =
     (case response of
        None \<Rightarrow> []
      | Some bindings \<Rightarrow> map snd (groupRows dateToISO [] bindings))"

definition platformMappings :: "(string \<times> string) list" where
  "platformMappings =
     [(''Microsoft Windows'', ''PC''), (''Windows'', ''PC''),
      (''PlayStation 4'', ''PlayStation 4''), (''PlayStation 5'', ''PlayStation 5''),
      (''Nintendo Switch'', ''Nintendo Switch''), (''Xbox One'', ''Xbox One''),
      (''Xbox Series X and Series S'', ''Xbox Series X/S''),
      (''Steam'', ''PC''), (''Epic Games Store'', ''PC'')]"

definition extractPlatforms :: "sparql_binding list \<Rightarrow> string list" where
  "extractPlatforms bindings =
     foldl (\<lambda>ps b. case extractValue (platformLabelVar b) of
                      None \<Rightarrow> ps
                    | Some platform \<Rightarrow>
                        setAdd (case map_of platformMappings platform of
                                  None \<Rightarrow> platform | Some normalized \<Rightarrow> normalized) ps)
       [] bindings"

text \<open>
  \<open>extractDevelopers\<close> and \<open>extractPublishers\<close>: the trimmed, non-empty labels in
  insertion order; the first one is the primary, \<open>null\<close> when there is none.
\<close>

definition extractCompanies :: "(sparql_binding \<Rightarrow> string option) \<Rightarrow> sparql_binding list \<Rightarrow> string list" where
  "extractCompanies label bindings =
     foldl (\<lambda>cs b. case extractValue (label b) of
                      None \<Rightarrow> cs
                    | Some c \<Rightarrow> if trim c \<noteq> [] then setAdd (trim c) cs else cs)
       [] bindings"

definition primaryOf :: "string list \<Rightarrow> string option" where
  "primaryOf cs = (case cs of [] \<Rightarrow> None | c # rest \<Rightarrow> if c = [] then None else Some c)"

definition extractReleaseDate :: "(string \<Rightarrow> string option) \<Rightarrow> sparql_binding option \<Rightarrow> jsstr" where
  "extractReleaseDate dateToISO b =
     (case (case b of None \<Rightarrow> None | Some row \<Rightarrow> extractValue (releaseDateVar row)) of
        None \<Rightarrow> Null
      | Some rawDate \<Rightarrow>
          (case parseDate dateToISO (Some rawDate) of None \<Rightarrow> Null | Some d \<Rightarrow> Str d))"

definition extractCoverImage :: "sparql_binding option \<Rightarrow> string option" where
  "extractCoverImage b = (case b of None \<Rightarrow> None | Some row \<Rightarrow> extractValue (imageVar row))"

text \<open>
  \<open>extractEnhancedMetadata\<close>. The objects it returns have a field \<open>genres\<close> and none named
  \<open>genre\<close>, no \<open>series\<close>, no \<open>modes\<close> and no \<open>searchMetadata\<close>.
\<close>

definition extractEnhancedMetadata ::
  "(string \<Rightarrow> string option) \<Rightarrow> sparql_binding list option \<Rightarrow> candidate list" where
  "extractEnhancedMetadata dateToISO response =
     map (\<lambda>game.
            (let bindings = filter (\<lambda>b. extractValue (wikidataIdVar b) = Some (gameId game))
                              (case response of None \<Rightarrow> [] | Some bs \<Rightarrow> bs);
                 first = (case bindings of [] \<Rightarrow> None | b # rest \<Rightarrow> Some b)
             in \<lparr>ident = Some (gameId game),
                 title = Some (gameTitle game),
                 releaseDate = extractReleaseDate dateToISO first,
                 developer = primaryOf (extractCompanies developerLabelVar bindings),
                 publisher = primaryOf (extractCompanies publisherLabelVar bindings),
                 platforms = Some (extractPlatforms bindings),
                 genre = None,
                 coverImage = extractCoverImage first,
                 description = gameDescription game,
                 series = None,
                 modes = None,
                 wikidataId = Some (gameId game),
                 dataSource = Some \<lparr>primary = Some ''wikidata'', attribution = None,
                                    fallback = None, wikipediaAttribution = None\<rparr>,
                 searchMetadata = None\<rparr>))
       (parseWikidataResponse dateToISO response)"

text \<open>
  \<open>WikidataService.searchGameByTitle\<close>, given what the SPARQL request does: it throws, or
  returns a response.
\<close>

definition wikidataSearchGameByTitle ::
  "(string \<Rightarrow> string option) \<Rightarrow> (string \<Rightarrow> error + sparql_binding list option) \<Rightarrow> string
     \<Rightarrow> error + candidate list" where
  "wikidataSearchGameByTitle dateToISO executeSPARQLQuery t =
     (case executeSPARQLQuery t of
        Inl err \<Rightarrow> Inl err
      | Inr response \<Rightarrow> Inr (extractEnhancedMetadata dateToISO response))"

text \<open>\<open>isValidGameData\<close>; no function of the repository calls it.\<close>

definition isValidGameData :: "candidate \<Rightarrow> bool" where
  "isValidGameData gameData =
     (truthy (title gameData) \<and> title gameData \<noteq> Some ''Unknown Title''
      \<and> truthy (wikidataId gameData))"

section \<open>Example candidates\<close>

definition blankCandidate :: candidate where
  "blankCandidate =
     \<lparr>ident = None, title = None, releaseDate = Undefined, developer = None, publisher = None,
      platforms = None, genre = None, coverImage = None, description = None, series = None,
      modes = None, wikidataId = None, dataSource = None, searchMetadata = None\<rparr>"

definition scored :: "string \<Rightarrow> rat \<Rightarrow> candidate \<Rightarrow> candidate" where
  "scored src c result =
     result\<lparr>searchMetadata :=
       Some \<lparr>source = Some src, query = Some ''doom'', timestamp = Some 0,
             confidence = Some c, enhancedWithWikipedia = None\<rparr>\<rparr>"

definition exampleDoom :: candidate where
  "exampleDoom =
     scored ''wikidata'' (5 / 10)
       (blankCandidate\<lparr>title := Some ''Doom'', releaseDate := Str ''1993-12-10'',
          platforms := Some [''PC'', ''DOS'']\<rparr>)"

definition exampleDoom2 :: candidate where
  "exampleDoom2 =
     scored ''wikidata'' (9 / 10)
       (blankCandidate\<lparr>title := Some ''Doom II'', releaseDate := Str ''1994-10-10'',
          platforms := Some [''PC'']\<rparr>)"

definition exampleQuake :: candidate where
  "exampleQuake =
     scored ''wikipedia'' (55 / 100)
       (blankCandidate\<lparr>title := Some ''Quake'', releaseDate := Str ''1996-06-22'',
          platforms := Some [''PC'']\<rparr>)"

text \<open>A state and two environments for the examples below.\<close>

definition emptyState :: state where
  "emptyState = \<lparr>searchCache = [], calls = []\<rparr>"

definition throwingEnv :: env where
  "throwingEnv =
     \<lparr>searchGameByTitle = (\<lambda>q. Inl (Error ''Wikidata search failed'')),
      extractGameMetadata = (\<lambda>q. Inl (Error ''Wikipedia search failed'')),
      generateSearchResultId = ''search_1''\<rparr>"

definition exampleZelda :: candidate where
  "exampleZelda =
     blankCandidate
       \<lparr>ident := Some ''Q17185964'',
        title := Some ''The Legend of Zelda: Breath of the Wild'',
        releaseDate := Str ''2017-03-03'',
        developer := Some ''Nintendo EPD'',
        publisher := Some ''Nintendo'',
        platforms := Some [''Nintendo Switch'', ''Wii U''],
        coverImage := Some ''https://commons.wikimedia.org/botw.jpg'',
        description := Some ''action-adventure game'',
        wikidataId := Some ''Q17185964''\<rparr>"

definition zeldaEnv :: env where
  "zeldaEnv =
     \<lparr>searchGameByTitle = (\<lambda>q. Inr [exampleZelda]),
      extractGameMetadata = (\<lambda>q. Inr None),
      generateSearchResultId = ''search_1''\<rparr>"

text \<open>A series of searches on one manager, each with its environment, time and query.\<close>

fun runSearches :: "(env \<times> int \<times> string) list \<Rightarrow> state \<Rightarrow> state" where
  "runSearches [] st = st"
| "runSearches ((e, now, q) # rest) st = runSearches rest (snd (searchGame e now st q))"

section \<open>Reading the outcome of a merge\<close>

text \<open>
  \<open>similarToSome\<close> is the test \<open>wikidataResults.some(...)\<close> of the merge. The other
  definitions read nested optional fields, and \<open>enhancedFrom p s r\<close> says in the words of
  the specification that \<open>r\<close> is the primary result \<open>p\<close> enhanced with the secondary
  result \<open>s\<close>: description, series and modes are filled from \<open>s\<close> where \<open>p\<close> lacks them
  and \<open>s\<close> has them, the fallback attribution is recorded when \<open>s\<close> carries one, the
  flag is set, and every other field is that of \<open>p\<close>.
\<close>

definition similarToSome :: "candidate list \<Rightarrow> candidate \<Rightarrow> bool" where
  "similarToSome wikidataResults wikipediaResult =
     list_ex (\<lambda>wikidataResult. areResultsSimilar wikidataResult wikipediaResult) wikidataResults"

definition attributionOf :: "candidate \<Rightarrow> string option" where
  "attributionOf c = (case dataSource c of None \<Rightarrow> None | Some d \<Rightarrow> attribution d)"

definition fallbackOf :: "candidate \<Rightarrow> string option" where
  "fallbackOf c = (case dataSource c of None \<Rightarrow> None | Some d \<Rightarrow> fallback d)"

definition wikipediaAttributionOf :: "candidate \<Rightarrow> string option" where
  "wikipediaAttributionOf c =
     (case dataSource c of None \<Rightarrow> None | Some d \<Rightarrow> wikipediaAttribution d)"

definition enhancedFlag :: "candidate \<Rightarrow> bool option" where
  "enhancedFlag c =
     (case searchMetadata c of None \<Rightarrow> None | Some m \<Rightarrow> enhancedWithWikipedia m)"

definition sourceOf :: "candidate \<Rightarrow> string option" where
  "sourceOf c = (case searchMetadata c of None \<Rightarrow> None | Some m \<Rightarrow> source m)"

definition enhancedFrom :: "candidate \<Rightarrow> candidate \<Rightarrow> candidate \<Rightarrow> bool" where
  "enhancedFrom p s r =
     (description r = (if \<not> truthy (description p) \<and> truthy (description s)
                       then description s else description p)
      \<and> (if truthy (attributionOf s)
          then fallbackOf r = Some ''wikipedia'' \<and> wikipediaAttributionOf r = attributionOf s
          else dataSource r = dataSource p)
      \<and> series r = (if truthy (series s) \<and> \<not> truthy (series p) then series s else series p)
      \<and> modes r = (if modes s \<noteq> None \<and> (modes p = None \<or> modes p = Some [])
                     then modes s else modes p)
      \<and> enhancedFlag r = Some True
      \<and> confidenceOf r = confidenceOf p \<and> sourceOf r = sourceOf p
      \<and> ident r = ident p \<and> title r = title p \<and> releaseDate r = releaseDate p
      \<and> developer r = developer p \<and> publisher r = publisher p
      \<and> platforms r = platforms p \<and> genre r = genre p \<and> coverImage r = coverImage p
      \<and> wikidataId r = wikidataId p)"

text \<open>A Wikipedia result for Doom, with and without the URL of its article.\<close>

definition exampleDoomWiki :: candidate where
  "exampleDoomWiki =
     scored ''wikipedia'' (6 / 10)
       (blankCandidate
          \<lparr>ident := Some ''search_1'', title := Some ''DOOM'', releaseDate := Str ''1993-12-10'',
           platforms := Some [''PC'', ''DOS''],
           description := Some ''Doom is a 1993 first-person shooter.'',
           series := Some ''Doom'',
           modes := Some [''Single-player'', ''multiplayer''],
           dataSource := Some \<lparr>primary = Some ''wikipedia'',
                               attribution = Some ''https://en.wikipedia.org/wiki/Doom'',
                               fallback = None, wikipediaAttribution = None\<rparr>\<rparr>)"

definition exampleDoomWikiNoUrl :: candidate where
  "exampleDoomWikiNoUrl =
     exampleDoomWiki
       \<lparr>dataSource := Some \<lparr>primary = Some ''wikipedia'', attribution = None,
                           fallback = None, wikipediaAttribution = None\<rparr>\<rparr>"

section \<open>Result lists without exact duplicates\<close>

text \<open>
  \<open>resultListOk rs\<close>: no two entries of \<open>rs\<close> have the same deduplication key, and no
  entry of Wikidata origin is similar to an entry of Wikipedia origin. \<open>cacheOk\<close> says that
  every cached list is such a list; it holds of the empty cache.
\<close>

definition crossSourceSimilar :: "candidate \<Rightarrow> candidate \<Rightarrow> bool" where
  "crossSourceSimilar a b =
     (sourceOf a = Some ''wikidata'' \<and> sourceOf b = Some ''wikipedia''
      \<and> (areResultsSimilar a b \<or> areResultsSimilar b a))"

definition resultListOk :: "candidate list \<Rightarrow> bool" where
  "resultListOk rs =
     (distinct (map dedupKey rs)
      \<and> list_all (\<lambda>a. list_all (\<lambda>b. \<not> crossSourceSimilar a b) rs) rs)"

definition cacheOk :: "state \<Rightarrow> bool" where
  "cacheOk st = list_all (\<lambda>(key, val). resultListOk (cachedResults val)) (searchCache st)"

text \<open>
  A Wikidata service that answers with Doom and Doom II, and a Wikipedia service that answers
  with Quake.
\<close>

definition doomEnv :: env where
  "doomEnv =
     \<lparr>searchGameByTitle = (\<lambda>q. Inr [exampleDoom, exampleDoom2]),
      extractGameMetadata = (\<lambda>q. Inr (Some exampleQuake)),
      generateSearchResultId = ''search_1''\<rparr>"

text \<open>
  A Wikipedia whose article on Celeste has no infobox that the patterns find, and one whose
  search finds no article.
\<close>

definition celestePage :: page_content where
  "celestePage =
     \<lparr>pageTitle = Some ''Celeste'',
      extractText = Some ''Celeste is a 2018 platform game.'',
      image = None,
      url = Some ''https://en.wikipedia.org/wiki/Celeste_(video_game)''\<rparr>"

definition celesteWikipedia :: wikipedia_env where
  "celesteWikipedia =
     \<lparr>searchGamePages =
        (\<lambda>q. Inr [\<lparr>hitTitle = ''Celeste'', snippet = ''Celeste is a 2018 platform video game''\<rparr>]),
      getPageContent = (\<lambda>t. Inr celestePage),
      getPageWikitext = (\<lambda>t. Inr ''Celeste is a platform game.''),
      matchPattern = (\<lambda>i wikitext. []),
      parseInfoBoxFields = (\<lambda>content. emptyInfobox)\<rparr>"

definition noArticleWikipedia :: wikipedia_env where
  "noArticleWikipedia = celesteWikipedia\<lparr>searchGamePages := (\<lambda>q. Inr [])\<rparr>"

section \<open>Fields that no pipeline step assigns\<close>

text \<open>
  The fields of a candidate that the enhancement never writes, with the confidence and the
  source read from the search metadata.
\<close>

definition keptFields ::
  "candidate \<Rightarrow> (string option \<times> string option \<times> jsstr \<times> string option \<times> string option)
     \<times> (string list option \<times> string list option \<times> string option \<times> string option)
     \<times> (rat \<times> string option)" where
  "keptFields c =
     ((ident c, title c, releaseDate c, developer c, publisher c),
      (platforms c, genre c, coverImage c, wikidataId c),
      (confidenceOf c, sourceOf c))"

text \<open>
  A SPARQL response whose only row binds no label for the game, and a search environment
  whose Wikidata service receives that response.
\<close>

definition unlabelledRow :: sparql_binding where
  "unlabelledRow =
     \<lparr>wikidataIdVar = Some ''Q12345'',
      gameVar = Some ''http://www.wikidata.org/entity/Q12345'',
      gameLabelVar = None, releaseDateVar = None, platformLabelVar = Some ''Windows'',
      developerLabelVar = None, publisherLabelVar = None, imageVar = None,
      descriptionVar = None\<rparr>"

definition unlabelledEnv :: env where
  "unlabelledEnv =
     \<lparr>searchGameByTitle =
        wikidataSearchGameByTitle (\<lambda>d. None) (\<lambda>t. Inr (Some [unlabelledRow])),
      extractGameMetadata = (\<lambda>q. Inr None),
      generateSearchResultId = ''search_1''\<rparr>"

section \<open>Ranking order\<close>












section \<open>Queries that are too short\<close>

lemma filter_dropWhile_space:
  "filter (\<lambda>c. \<not> P c) (dropWhile P s) = filter (\<lambda>c. \<not> P c) s"
  by (induction s) auto

lemma filter_trim: "filter (\<lambda>c. \<not> isSpace c) (trim s) = filter (\<lambda>c. \<not> isSpace c) s"
proof -
  have "filter (\<lambda>c. \<not> isSpace c) (trim s)
      = rev (filter (\<lambda>c. \<not> isSpace c) (dropWhile isSpace (rev (dropWhile isSpace s))))"
    by (simp add: trim_def rev_filter)
  also have "\<dots> = rev (filter (\<lambda>c. \<not> isSpace c) (rev (dropWhile isSpace s)))"
    by (simp only: filter_dropWhile_space)
  also have "\<dots> = filter (\<lambda>c. \<not> isSpace c) (dropWhile isSpace s)"
    by (simp add: rev_filter)
  finally show ?thesis by (simp only: filter_dropWhile_space)
qed

lemma dropWhile_rev_keep_hd:
  assumes "ys \<noteq> []" "\<not> P (hd ys)"
  shows "\<exists>zs. rev (dropWhile P (rev ys)) = hd ys # zs"
proof -
  obtain y ys' where ys: "ys = y # ys'" using assms(1) by (cases ys) auto
  have "\<exists>A. dropWhile P (rev ys' @ [y]) = A @ [y]"
    using assms(2) ys by (auto simp: dropWhile_append)
  then obtain A where "dropWhile P (rev ys) = A @ [y]" using ys by auto
  then have "rev (dropWhile P (rev ys)) = y # rev A" by simp
  then show ?thesis using ys by simp
qed

lemma trim_hd_nonspace: "trim s \<noteq> [] \<Longrightarrow> \<not> isSpace (hd (trim s))"
proof -
  assume ne: "trim s \<noteq> []"
  let ?d = "dropWhile isSpace s"
  have d: "?d \<noteq> []"
  proof
    assume "?d = []"
    then have "trim s = []" unfolding trim_def by (simp del: dropWhile_eq_Nil_conv)
    with ne show False by simp
  qed
  then have "\<not> isSpace (hd ?d)" by (rule hd_dropWhile)
  from dropWhile_rev_keep_hd [of ?d isSpace, OF d this] obtain zs where "trim s = hd ?d # zs"
    by (auto simp: trim_def)
  with \<open>\<not> isSpace (hd ?d)\<close> show ?thesis by simp
qed

lemma trim_last_nonspace: "trim s \<noteq> [] \<Longrightarrow> \<not> isSpace (last (trim s))"
proof -
  assume ne: "trim s \<noteq> []"
  let ?r = "dropWhile isSpace (rev (dropWhile isSpace s))"
  have r: "?r \<noteq> []" using ne by (simp add: trim_def)
  then have "\<not> isSpace (hd ?r)" by (rule hd_dropWhile)
  moreover have "last (trim s) = hd ?r" using r by (simp add: trim_def last_rev)
  ultimately show ?thesis by simp
qed

lemma two_nonspace:
  assumes "2 \<le> length t" "\<not> P (hd t)" "\<not> P (last t)"
  shows "2 \<le> length (filter (\<lambda>c. \<not> P c) t)"
proof -
  obtain a u where t: "t = a # u" using assms(1) by (cases t) auto
  with assms(1) have "u \<noteq> []" by auto
  then obtain v b where u: "u = v @ [b]" by (metis rev_exhaust)
  show ?thesis using assms t u by simp
qed

lemma searchGame_guard: "(q = [] \<or> length (trim q) < 2) = (length (trim q) < 2)"
  by (auto simp: trim_def)

lemma trim_short_iff:
  "(length (filter (\<lambda>c. \<not> isSpace c) q) < 2) = (length (trim q) < 2)"
proof
  assume l: "length (filter (\<lambda>c. \<not> isSpace c) q) < 2"
  show "length (trim q) < 2"
  proof (rule ccontr)
    assume "\<not> length (trim q) < 2"
    then have two: "2 \<le> length (trim q)" by simp
    then have "trim q \<noteq> []" by auto
    then have "2 \<le> length (filter (\<lambda>c. \<not> isSpace c) (trim q))"
      using two_nonspace [OF two] trim_hd_nonspace trim_last_nonspace by blast
    with l show False by (simp add: filter_trim)
  qed
next
  assume "length (trim q) < 2"
  moreover have "length (filter (\<lambda>c. \<not> isSpace c) (trim q)) \<le> length (trim q)"
    by (rule length_filter_le)
  ultimately show "length (filter (\<lambda>c. \<not> isSpace c) q) < 2"
    by (simp add: filter_trim)
qed

text \<open>
  C8. A query has fewer than two non-white-space characters exactly when its trimmed length
  is below 2, and for such a query \<open>searchGame\<close> returns the empty list and leaves the
  manager as it was: no call to either service is logged and the cache is untouched.
\<close>

theorem short_query_empty:
  "((length (filter (\<lambda>c. \<not> isSpace c) q) < 2) = (length (trim q) < 2))
   \<and> (length (trim q) < 2 \<longrightarrow> searchGame e now st q = ([], st))"
  using trim_short_iff by (simp add: searchGame_def searchGame_guard)


theorem short_query_empty_witness:
  "length (filter (\<lambda>c. \<not> isSpace c) ''  a '') < 2 \<and> length (trim ''  a '') < 2
   \<and> searchGame zeldaEnv 1000 emptyState ''  a '' = ([], emptyState)"
  using short_query_empty [of "''  a ''" zeldaEnv 1000 emptyState]
  by (simp add: trim_def isSpace_def)

section \<open>Failing services\<close>

lemma rank_Nil: "rankAndDeduplicateResults [] = []"
  by (simp add: rankAndDeduplicateResults_def removeDuplicates_def arraySort_def)

lemma merge_Nil: "mergeSearchResults [] [] = []"
  by (simp add: mergeSearchResults_def)

text \<open>
  C7. When the query is not answered from the cache and both services throw,
  \<open>searchGame\<close> returns the empty list: each service was called once and its exception was
  caught. \<open>searchGame\<close> is a total function into result lists, so no search ends in an
  exception.
\<close>

theorem both_adapters_throw:
  assumes "searchGameByTitle e (trim q) = Inl err1"
    and "extractGameMetadata e (trim q) = Inl err2"
    and "fst (getCachedResult now st (trim q)) = None"
  shows "fst (searchGame e now st q) = []
         \<and> calls (snd (searchGame e now st q))
             = calls st @ (if length (trim q) < 2 then []
                           else [WikidataCall (trim q), WikipediaCall (trim q)])"
proof (cases "length (trim q) < 2")
  case True
  then show ?thesis by (simp add: searchGame_def)
next
  case False
  obtain st0 where g: "getCachedResult now st (trim q) = (None, st0)"
    using assms(3) by (cases "getCachedResult now st (trim q)") auto
  have c0: "calls st0 = calls st"
    using g by (auto simp: getCachedResult_def Let_def split: option.splits if_splits)
  have "searchGamePrimary e now st0 (trim q)
      = Inr ([], cacheResult now (st0\<lparr>calls := calls st0 @ [WikidataCall (trim q), WikipediaCall (trim q)]\<rparr>) (trim q) [])"
    using assms(1,2)
    by (simp add: searchGamePrimary_def executeWikidataSearch_def executeFallbackSearch_def
        hasGoodQualityResults_def merge_Nil rank_Nil Let_def)
  moreover have "q \<noteq> []" using False by (auto simp: trim_def)
  ultimately show ?thesis using False g c0
    by (simp add: searchGame_def Let_def cacheResult_def cleanCache_def)
qed


theorem both_adapters_throw_witness:
  "searchGameByTitle throwingEnv (trim ''doom'') = Inl (Error ''Wikidata search failed'')
   \<and> extractGameMetadata throwingEnv (trim ''doom'') = Inl (Error ''Wikipedia search failed'')
   \<and> fst (getCachedResult 1000 emptyState (trim ''doom'')) = None
   \<and> fst (searchGame throwingEnv 1000 emptyState ''doom'') = []
   \<and> calls (snd (searchGame throwingEnv 1000 emptyState ''doom''))
       = [WikidataCall ''doom'', WikipediaCall ''doom'']"
proof -
  have t: "trim ''doom'' = ''doom''" by (simp add: trim_def isSpace_def)
  have h1: "searchGameByTitle throwingEnv (trim ''doom'') = Inl (Error ''Wikidata search failed'')"
    by (simp add: throwingEnv_def)
  have h2: "extractGameMetadata throwingEnv (trim ''doom'') = Inl (Error ''Wikipedia search failed'')"
    by (simp add: throwingEnv_def)
  have h3: "fst (getCachedResult 1000 emptyState (trim ''doom'')) = None"
    by (simp add: getCachedResult_def emptyState_def)
  show ?thesis
    using both_adapters_throw [OF h1 h2 h3] h1 h2 h3 by (simp add: t emptyState_def)
qed

section \<open>The good-quality gate\<close>

text \<open>
  C2. On a cache miss whose Wikidata results pass the good-quality gate, the search logs the
  Wikidata call only, and the returned list and the resulting state are the same whatever
  the Wikipedia service \<open>w\<close> would have done.
\<close>

theorem good_quality_skips_wikipedia:
  assumes "2 \<le> length (trim q)"
    and "fst (getCachedResult now st (trim q)) = None"
    and "hasGoodQualityResults (fst (executeWikidataSearch e now st (trim q)))"
  shows "searchGame (e\<lparr>extractGameMetadata := w\<rparr>) now st q = searchGame e now st q
         \<and> calls (snd (searchGame e now st q)) = calls st @ [WikidataCall (trim q)]"
proof -
  obtain st0 where g: "getCachedResult now st (trim q) = (None, st0)"
    using assms(2) by (cases "getCachedResult now st (trim q)") auto
  have c0: "calls st0 = calls st"
    using g by (auto simp: getCachedResult_def Let_def split: option.splits if_splits)
  have indep: "fst (executeWikidataSearch e now st (trim q)) = fst (executeWikidataSearch e now st0 (trim q))"
    by (simp add: executeWikidataSearch_def Let_def split: sum.splits)
  have same: "executeWikidataSearch (e\<lparr>extractGameMetadata := w\<rparr>) now st0 (trim q) = executeWikidataSearch e now st0 (trim q)"
    by (simp add: executeWikidataSearch_def)
  obtain wr st1 where x: "executeWikidataSearch e now st0 (trim q) = (wr, st1)"
    by (cases "executeWikidataSearch e now st0 (trim q)")
  have gate: "hasGoodQualityResults wr"
    using assms(3) indep x by simp
  then have len: "length wr > 0" by (auto simp: hasGoodQualityResults_def split: if_splits)
  have c1: "calls st1 = calls st0 @ [WikidataCall (trim q)]"
    using x by (auto simp: executeWikidataSearch_def Let_def split: sum.splits)
  have p: "searchGamePrimary e' now st0 (trim q)
        = Inr (rankAndDeduplicateResults wr, cacheResult now st1 (trim q) (rankAndDeduplicateResults wr))"
    if "e' = e \<or> e' = e\<lparr>extractGameMetadata := w\<rparr>" for e'
    using that x same gate len by (auto simp: searchGamePrimary_def Let_def)
  have "q \<noteq> []" using assms(1) by (auto simp: trim_def)
  then show ?thesis
    using assms(1) g p c0 c1
    by (simp add: searchGame_def Let_def cacheResult_def cleanCache_def)
qed

theorem good_quality_skips_wikipedia_witness:
  "2 \<le> length (trim ''Breath of the Wild'')
   \<and> fst (getCachedResult 1000 emptyState (trim ''Breath of the Wild'')) = None
   \<and> hasGoodQualityResults
       (fst (executeWikidataSearch zeldaEnv 1000 emptyState (trim ''Breath of the Wild'')))
   \<and> searchGame (zeldaEnv\<lparr>extractGameMetadata := (\<lambda>q. Inr (Some exampleQuake))\<rparr>) 1000 emptyState
         ''Breath of the Wild''
       = searchGame zeldaEnv 1000 emptyState ''Breath of the Wild''
   \<and> calls (snd (searchGame zeldaEnv 1000 emptyState ''Breath of the Wild''))
       = [WikidataCall ''Breath of the Wild'']"
proof -
  have t: "trim ''Breath of the Wild'' = ''Breath of the Wild''"
    by (simp add: trim_def isSpace_def)
  have h1: "2 \<le> length (trim ''Breath of the Wild'')" by (simp add: t)
  have h2: "fst (getCachedResult 1000 emptyState (trim ''Breath of the Wild'')) = None"
    by (simp add: getCachedResult_def emptyState_def)
  have h3: "hasGoodQualityResults
       (fst (executeWikidataSearch zeldaEnv 1000 emptyState (trim ''Breath of the Wild'')))"
    by code_simp
  show ?thesis
    using good_quality_skips_wikipedia [OF h1 h2 h3, of "\<lambda>q. Inr (Some exampleQuake)"] h1 h2 h3
    by (simp add: t emptyState_def)
qed

section \<open>The cache\<close>

lemma isSpace_toLowerChar: "isSpace (toLowerChar c) = isSpace c"
  by (auto simp: toLowerChar_def isSpace_def split: option.splits if_splits)

lemma dropWhile_toLowerCase:
  "dropWhile isSpace (toLowerCase s) = toLowerCase (dropWhile isSpace s)"
  by (induction s) (simp_all add: toLowerCase_def isSpace_toLowerChar)

lemma trim_toLowerCase: "trim (toLowerCase s) = toLowerCase (trim s)"
proof -
  have r: "rev (toLowerCase s) = toLowerCase (rev s)" for s
    by (simp add: toLowerCase_def rev_map)
  show ?thesis
    by (simp only: trim_def dropWhile_toLowerCase r)
qed


lemma dropWhile_trim: "dropWhile isSpace (trim s) = trim s"
proof (cases "trim s")
  case Nil
  then show ?thesis by simp
next
  case (Cons a u)
  then have "\<not> isSpace a" using trim_hd_nonspace [of s] by simp
  then show ?thesis using Cons by simp
qed

lemma trim_trim: "trim (trim s) = trim s"
proof -
  have "trim (trim s) = rev (dropWhile isSpace (rev (trim s)))"
    by (simp add: trim_def [of "trim s"] dropWhile_trim)
  also have "rev (trim s) = dropWhile isSpace (rev (dropWhile isSpace s))"
    by (simp add: trim_def)
  finally show ?thesis by (simp add: trim_def)
qed

lemma cacheKey_normal: "trim (toLowerCase (trim q)) = toLowerCase (trim q)"
  by (simp add: trim_toLowerCase trim_trim)

lemma map_of_filter_keep:
  "map_of m k = Some v \<Longrightarrow> P (k, v) \<Longrightarrow> map_of (filter P m) k = Some v"
  by (induction m) (auto split: if_splits)

lemma cacheResult_lookup:
  "map_of (searchCache (cacheResult now st q rs)) (trim (toLowerCase q))
     = Some \<lparr>cachedResults = rs, cachedAt = now\<rparr>"
  by (simp add: cacheResult_def cleanCache_def Let_def map_of_filter_keep update_conv' cacheTimeout_def)

lemma cacheResult_other:
  assumes "map_of (searchCache st) k = Some entry" "now - cachedAt entry \<le> cacheTimeout"
    "k \<noteq> trim (toLowerCase q)"
  shows "map_of (searchCache (cacheResult now st q rs)) k = Some entry"
  using assms
  by (simp add: cacheResult_def cleanCache_def Let_def map_of_filter_keep update_conv')

lemma searchGamePrimary_shape:
  "\<exists>rs st'. searchGamePrimary e now st q = Inr (rs, cacheResult now st' q rs)
             \<and> searchCache st' = searchCache st"
  by (auto simp: searchGamePrimary_def executeWikidataSearch_def executeFallbackSearch_def Let_def
      split: sum.splits option.splits prod.splits)

lemma getCachedResult_fresh:
  assumes "map_of (searchCache st) (trim (toLowerCase q)) = Some entry"
    "now - cachedAt entry \<le> cacheTimeout"
  shows "getCachedResult now st q = (Some (cachedResults entry), st)"
  using assms by (simp add: getCachedResult_def Let_def)

lemma searchGame_hit:
  assumes "map_of (searchCache st) (toLowerCase (trim q)) = Some entry"
    "now - cachedAt entry \<le> cacheTimeout" "2 \<le> length (trim q)"
  shows "searchGame e now st q = (cachedResults entry, st)"
proof -
  have "q \<noteq> []" using assms(3) by (auto simp: trim_def)
  moreover have "getCachedResult now st (trim q) = (Some (cachedResults entry), st)"
    using assms(1,2) by (intro getCachedResult_fresh) (simp_all add: cacheKey_normal)
  ultimately show ?thesis using assms(3) by (simp add: searchGame_def Let_def)
qed

lemma getCachedResult_keeps:
  assumes "map_of (searchCache st) k = Some entry" "now - cachedAt entry \<le> cacheTimeout"
    "getCachedResult now st x = (None, st0)"
  shows "map_of (searchCache st0) k = Some entry \<and> k \<noteq> trim (toLowerCase x)"
  using assms
  by (auto simp: getCachedResult_def Let_def delete_conv' split: option.splits if_splits)

lemma searchGame_keeps:
  assumes "map_of (searchCache st) k = Some entry" "now - cachedAt entry \<le> cacheTimeout"
  shows "map_of (searchCache (snd (searchGame e now st x))) k = Some entry"
proof (cases "x = [] \<or> length (trim x) < 2")
  case True
  then show ?thesis using assms by (simp add: searchGame_def)
next
  case False
  obtain r st0 where g: "getCachedResult now st (trim x) = (r, st0)"
    by (cases "getCachedResult now st (trim x)")
  show ?thesis
  proof (cases r)
    case (Some cached)
    then have "st0 = st" using g
      by (auto simp: getCachedResult_def Let_def split: option.splits if_splits)
    then show ?thesis using False g Some assms by (simp add: searchGame_def Let_def)
  next
    case None
    from getCachedResult_keeps [OF assms] g None
    have k0: "map_of (searchCache st0) k = Some entry" and ne: "k \<noteq> trim (toLowerCase (trim x))"
      by auto
    obtain rs st' where p: "searchGamePrimary e now st0 (trim x) = Inr (rs, cacheResult now st' (trim x) rs)"
      and c: "searchCache st' = searchCache st0"
      using searchGamePrimary_shape by blast
    have "map_of (searchCache (cacheResult now st' (trim x) rs)) k = Some entry"
      using k0 c assms(2) ne by (intro cacheResult_other) simp_all
    then show ?thesis using False g None p by (simp add: searchGame_def Let_def)
  qed
qed

lemma runSearches_keeps:
  assumes "map_of (searchCache st) k = Some entry"
    "\<forall>(e, t, x) \<in> set between. t - cachedAt entry \<le> cacheTimeout"
  shows "map_of (searchCache (runSearches between st)) k = Some entry"
  using assms
proof (induction between arbitrary: st)
  case Nil
  then show ?case by simp
next
  case (Cons c cs)
  obtain e t x where c: "c = (e, t, x)" by (cases c)
  have "map_of (searchCache (snd (searchGame e t st x))) k = Some entry"
    using Cons.prems c by (intro searchGame_keeps) auto
  then show ?case using Cons c by simp
qed

lemma searchGame_miss_caches:
  assumes "2 \<le> length (trim q)" "fst (getCachedResult now st (trim q)) = None"
  shows "map_of (searchCache (snd (searchGame e now st q))) (toLowerCase (trim q))
           = Some \<lparr>cachedResults = fst (searchGame e now st q), cachedAt = now\<rparr>"
proof -
  have ne: "q \<noteq> []" using assms(1) by (auto simp: trim_def)
  obtain st0 where g: "getCachedResult now st (trim q) = (None, st0)"
    using assms(2) by (cases "getCachedResult now st (trim q)") auto
  obtain rs st' where p: "searchGamePrimary e now st0 (trim q) = Inr (rs, cacheResult now st' (trim q) rs)"
    using searchGamePrimary_shape by blast
  have "searchGame e now st q = (rs, cacheResult now st' (trim q) rs)"
    using ne assms(1) g p by (simp add: searchGame_def Let_def)
  then show ?thesis using cacheResult_lookup [of now st' "trim q" rs]
    by (simp add: cacheKey_normal)
qed

text \<open>
  C10. The cache key is the lower-cased, trimmed query. After a search for \<open>q\<close> that was
  not answered from the cache, made at time \<open>now1\<close>, and after any further searches made
  within the timeout, a search made within the timeout for a query \<open>q'\<close> with
  \<open>lowercase(trim(q')) = lowercase(trim(q))\<close> returns the list of the first search and
  leaves the manager unchanged: it logs no call to a service.
\<close>

theorem cached_query_reused:
  assumes "2 \<le> length (trim q)"
    and "fst (getCachedResult now1 st (trim q)) = None"
    and "searchGame e1 now1 st q = (rs, st1)"
    and "\<forall>(e, t, x) \<in> set between. t - now1 \<le> cacheTimeout"
    and "now2 - now1 \<le> cacheTimeout"
    and "toLowerCase (trim q') = toLowerCase (trim q)"
  shows "searchGame e2 now2 (runSearches between st1) q' = (rs, runSearches between st1)"
proof -
  let ?entry = "\<lparr>cachedResults = rs, cachedAt = now1\<rparr>"
  have "map_of (searchCache st1) (toLowerCase (trim q)) = Some ?entry"
    using searchGame_miss_caches [OF assms(1,2), of e1] assms(3) by simp
  then have "map_of (searchCache (runSearches between st1)) (toLowerCase (trim q')) = Some ?entry"
    using assms(4,6) by (intro runSearches_keeps) auto
  moreover have "length (trim q') = length (trim q)"
    using assms(6) by (metis length_map toLowerCase_def)
  ultimately show ?thesis
    using searchGame_hit [of "runSearches between st1" q' ?entry now2 e2] assms(1,5) by simp
qed

theorem cached_query_reused_witness:
  "2 \<le> length (trim ''Breath of the Wild'')
   \<and> fst (getCachedResult 1000 emptyState (trim ''Breath of the Wild'')) = None
   \<and> (2000 :: int) - 1000 \<le> cacheTimeout
   \<and> (300000 :: int) - 1000 \<le> cacheTimeout
   \<and> toLowerCase (trim ''  BREATH of the wild '') = toLowerCase (trim ''Breath of the Wild'')
   \<and> searchGame throwingEnv 300000
        (runSearches [(throwingEnv, 2000, ''doom'')]
           (snd (searchGame zeldaEnv 1000 emptyState ''Breath of the Wild'')))
        ''  BREATH of the wild ''
      = (fst (searchGame zeldaEnv 1000 emptyState ''Breath of the Wild''),
         runSearches [(throwingEnv, 2000, ''doom'')]
           (snd (searchGame zeldaEnv 1000 emptyState ''Breath of the Wild'')))"
proof -
  have t: "trim ''Breath of the Wild'' = ''Breath of the Wild''"
    by (simp add: trim_def isSpace_def)
  have h1: "2 \<le> length (trim ''Breath of the Wild'')" by (simp add: t)
  have h2: "fst (getCachedResult 1000 emptyState (trim ''Breath of the Wild'')) = None"
    by (simp add: getCachedResult_def emptyState_def)
  have h3: "searchGame zeldaEnv 1000 emptyState ''Breath of the Wild''
      = (fst (searchGame zeldaEnv 1000 emptyState ''Breath of the Wild''),
         snd (searchGame zeldaEnv 1000 emptyState ''Breath of the Wild''))" by simp
  have h4: "\<forall>(e, t, x) \<in> set [(throwingEnv, 2000, ''doom'')]. t - 1000 \<le> cacheTimeout"
    by (simp add: cacheTimeout_def)
  have h5: "300000 - 1000 \<le> cacheTimeout" by (simp add: cacheTimeout_def)
  have h6: "toLowerCase (trim ''  BREATH of the wild '') = toLowerCase (trim ''Breath of the Wild'')"
    by (simp add: trim_def isSpace_def toLowerCase_def toLowerChar_def)
  show ?thesis
    using cached_query_reused [OF h1 h2 h3 h4 h5 h6, of throwingEnv] h1 h2 h4 h5 h6
    by simp
qed

section \<open>Merging\<close>

lemma areResultsSimilar_cong:
  assumes "title a = title a'" "releaseDate a = releaseDate a'" "platforms a = platforms a'"
    "title b = title b'" "releaseDate b = releaseDate b'" "platforms b = platforms b'"
  shows "areResultsSimilar a b = areResultsSimilar a' b'"
  using assms by (simp add: areResultsSimilar_def platformSet_def)

lemma enhance_keeps:
  "title (enhanceResultWithWikipediaData p s) = title p"
  "releaseDate (enhanceResultWithWikipediaData p s) = releaseDate p"
  "platforms (enhanceResultWithWikipediaData p s) = platforms p"
  "ident (enhanceResultWithWikipediaData p s) = ident p"
  "developer (enhanceResultWithWikipediaData p s) = developer p"
  "publisher (enhanceResultWithWikipediaData p s) = publisher p"
  "genre (enhanceResultWithWikipediaData p s) = genre p"
  "coverImage (enhanceResultWithWikipediaData p s) = coverImage p"
  "wikidataId (enhanceResultWithWikipediaData p s) = wikidataId p"
  by (simp_all add: enhanceResultWithWikipediaData_def Let_def split: option.splits)

lemma enhance_similar:
  "areResultsSimilar (enhanceResultWithWikipediaData p s) x = areResultsSimilar p x"
  by (rule areResultsSimilar_cong) (simp_all add: enhance_keeps)

lemma updateFirst_length [simp]: "length (updateFirst P f xs) = length xs"
  by (induction xs) simp_all

lemma updateFirst_similar:
  "map (\<lambda>d. areResultsSimilar d x)
     (updateFirst P (\<lambda>m. enhanceResultWithWikipediaData m s) xs)
   = map (\<lambda>d. areResultsSimilar d x) xs"
  by (induction xs) (simp_all add: enhance_similar)

lemma list_ex_map_eq: "map P xs = map P ys \<Longrightarrow> list_ex P xs = list_ex P ys"
proof -
  assume "map P xs = map P ys"
  then have "set (map P xs) = set (map P ys)" by simp
  then have "(True \<in> P ` set xs) = (True \<in> P ` set ys)" by simp
  then show ?thesis by (auto simp: list_ex_iff image_iff)
qed


lemma mergeLoop_similar:
  "map (\<lambda>d. areResultsSimilar d x) (fst (mergeLoop wd pushed wp))
     = map (\<lambda>d. areResultsSimilar d x) wd"
  by (induction wp arbitrary: wd pushed) (simp_all add: Let_def updateFirst_similar)

lemma mergeLoop_length: "length (fst (mergeLoop wd pushed wp)) = length wd"
  by (induction wp arbitrary: wd pushed) (simp_all add: Let_def)

lemma mergeLoop_pushed:
  "snd (mergeLoop wd pushed wp) = pushed @ filter (\<lambda>s. \<not> similarToSome wd s) wp"
proof (induction wp arbitrary: wd pushed)
  case Nil
  then show ?case by simp
next
  case (Cons s wp)
  have inv: "similarToSome (updateFirst P (\<lambda>m. enhanceResultWithWikipediaData m s') wd) x
      = similarToSome wd x" for P s' x
    unfolding similarToSome_def by (rule list_ex_map_eq) (rule updateFirst_similar)
  have f: "filter (\<lambda>x. \<not> similarToSome (updateFirst P (\<lambda>m. enhanceResultWithWikipediaData m s') wd) x) wp
      = filter (\<lambda>x. \<not> similarToSome wd x) wp" for P s'
    by (simp add: inv)
  show ?case
    by (simp add: Let_def Cons.IH f) (simp add: similarToSome_def)
qed

lemma mergeLoop_append:
  "mergeLoop wd pushed (wp @ [s])
     = (case mergeLoop wd pushed wp of
          (cur, pushed') \<Rightarrow>
            if \<not> similarToSome cur s then (cur, pushed' @ [s])
            else (updateFirst (\<lambda>d. areResultsSimilar d s)
                    (\<lambda>m. enhanceResultWithWikipediaData m s) cur, pushed'))"
  by (induction wp arbitrary: wd pushed) (simp_all add: Let_def similarToSome_def)

lemma similarToSome_after:
  "similarToSome (fst (mergeLoop wd pushed wp)) s = similarToSome wd s"
  unfolding similarToSome_def by (rule list_ex_map_eq) (rule mergeLoop_similar)

lemma updateFirst_nth:
  assumes "i < length xs" "P (xs ! i)" "\<forall>j<i. \<not> P (xs ! j)"
  shows "updateFirst P f xs = xs[i := f (xs ! i)]"
  using assms
proof (induction xs arbitrary: i)
  case Nil
  then show ?case by simp
next
  case (Cons x xs)
  show ?case
  proof (cases i)
    case 0
    then show ?thesis using Cons.prems by simp
  next
    case (Suc k)
    have "\<not> P x" using Cons.prems(3) Suc by auto
    moreover have "updateFirst P f xs = xs[k := f (xs ! k)]"
      using Cons.prems Suc by (intro Cons.IH) auto
    ultimately show ?thesis using Suc by simp
  qed
qed

lemma first_similar:
  assumes "list_ex P xs"
  shows "\<exists>i<length xs. P (xs ! i) \<and> (\<forall>j<i. \<not> P (xs ! j))"
  using assms
proof (induction xs)
  case Nil
  then show ?case by simp
next
  case (Cons x xs)
  show ?case
  proof (cases "P x")
    case True
    then show ?thesis by (intro exI [of _ 0]) simp
  next
    case False
    then obtain i where i: "i < length xs" "P (xs ! i)" "\<forall>j<i. \<not> P (xs ! j)"
      using Cons by auto
    have "\<forall>j<Suc i. \<not> P ((x # xs) ! j)"
      using False i(3) by (auto simp: less_Suc_eq_0_disj)
    then show ?thesis using i by (intro exI [of _ "Suc i"]) simp
  qed
qed


lemma enhance_description:
  "description (enhanceResultWithWikipediaData p s)
     = (if \<not> truthy (description p) \<and> truthy (description s)
        then description s else description p)"
  by (auto simp: enhanceResultWithWikipediaData_def Let_def split: option.splits)

lemma enhance_series:
  "series (enhanceResultWithWikipediaData p s)
     = (if truthy (series s) \<and> \<not> truthy (series p) then series s else series p)"
  by (auto simp: enhanceResultWithWikipediaData_def Let_def split: option.splits)

lemma enhance_modes:
  "modes (enhanceResultWithWikipediaData p s)
     = (if modes s \<noteq> None \<and> (modes p = None \<or> modes p = Some [])
        then modes s else modes p)"
  by (auto simp: enhanceResultWithWikipediaData_def Let_def split: option.splits)

lemma enhance_dataSource:
  "dataSource (enhanceResultWithWikipediaData p s)
     = (if truthy (attributionOf s)
        then Some ((case dataSource p of None \<Rightarrow> emptyDataSource | Some x \<Rightarrow> x)
                     \<lparr>fallback := Some ''wikipedia'',
                      wikipediaAttribution := attributionOf s\<rparr>)
        else dataSource p)"
  by (simp add: enhanceResultWithWikipediaData_def Let_def attributionOf_def
      split: option.splits)

lemma enhance_searchMetadata:
  "searchMetadata (enhanceResultWithWikipediaData p s)
     = Some ((case searchMetadata p of None \<Rightarrow> emptySearchMetadata | Some m \<Rightarrow> m)
               \<lparr>enhancedWithWikipedia := Some True\<rparr>)"
  by (simp add: enhanceResultWithWikipediaData_def Let_def split: option.splits)

lemma enhance_enhancedFrom: "enhancedFrom p s (enhanceResultWithWikipediaData p s)"
  unfolding enhancedFrom_def
  by (simp add: enhance_keeps enhance_description enhance_series enhance_modes
      fallbackOf_def wikipediaAttributionOf_def enhancedFlag_def confidenceOf_def sourceOf_def
      enhance_dataSource enhance_searchMetadata emptySearchMetadata_def
      split: option.splits)

lemma merge_split:
  "mergeSearchResults wd wp
     = wikidataResultsAfterMerge wd wp @ filter (\<lambda>s. \<not> similarToSome wd s) wp"
proof -
  obtain cur pushed where m: "mergeLoop wd [] wp = (cur, pushed)"
    by (cases "mergeLoop wd [] wp")
  then have "pushed = filter (\<lambda>s. \<not> similarToSome wd s) wp"
    using mergeLoop_pushed [of wd "[]" wp] by simp
  then show ?thesis using m
    by (simp add: mergeSearchResults_def wikidataResultsAfterMerge_def)
qed

lemma after_append_unmatched:
  assumes "\<not> similarToSome wd s"
  shows "wikidataResultsAfterMerge wd (wp @ [s]) = wikidataResultsAfterMerge wd wp"
proof -
  have "\<not> similarToSome (fst (mergeLoop wd [] wp)) s"
    using assms by (simp add: similarToSome_after)
  then show ?thesis
    by (cases "mergeLoop wd [] wp") (simp add: wikidataResultsAfterMerge_def mergeLoop_append)
qed

lemma after_append_matched:
  assumes "similarToSome wd s"
  shows "\<exists>i<length wd. areResultsSimilar (wd ! i) s \<and> (\<forall>j<i. \<not> areResultsSimilar (wd ! j) s)
           \<and> wikidataResultsAfterMerge wd (wp @ [s])
               = (wikidataResultsAfterMerge wd wp)
                   [i := enhanceResultWithWikipediaData (wikidataResultsAfterMerge wd wp ! i) s]"
proof -
  let ?cur = "wikidataResultsAfterMerge wd wp"
  have len: "length ?cur = length wd"
    by (simp add: wikidataResultsAfterMerge_def mergeLoop_length)
  have m: "map (\<lambda>d. areResultsSimilar d s) ?cur = map (\<lambda>d. areResultsSimilar d s) wd"
    by (simp add: wikidataResultsAfterMerge_def mergeLoop_similar)
  have same: "areResultsSimilar (?cur ! j) s = areResultsSimilar (wd ! j) s" if "j < length wd" for j
  proof -
    have "map (\<lambda>d. areResultsSimilar d s) ?cur ! j = map (\<lambda>d. areResultsSimilar d s) wd ! j"
      by (simp only: m)
    then show ?thesis using that len by simp
  qed
  have "list_ex (\<lambda>d. areResultsSimilar d s) wd" using assms by (simp add: similarToSome_def)
  then obtain i where i: "i < length wd" "areResultsSimilar (wd ! i) s"
      "\<forall>j<i. \<not> areResultsSimilar (wd ! j) s"
    using first_similar by blast
  have cur_i: "areResultsSimilar (?cur ! i) s" using i same by simp
  have cur_j: "\<forall>j<i. \<not> areResultsSimilar (?cur ! j) s" using i same by auto
  have upd: "updateFirst (\<lambda>d. areResultsSimilar d s) (\<lambda>m. enhanceResultWithWikipediaData m s) ?cur
      = ?cur[i := enhanceResultWithWikipediaData (?cur ! i) s]"
    using i(1) len cur_i cur_j by (intro updateFirst_nth) simp_all
  have sim_cur: "similarToSome (fst (mergeLoop wd [] wp)) s"
    using assms by (simp add: similarToSome_after)
  have "wikidataResultsAfterMerge wd (wp @ [s])
      = updateFirst (\<lambda>d. areResultsSimilar d s) (\<lambda>m. enhanceResultWithWikipediaData m s) ?cur"
    using sim_cur
    by (cases "mergeLoop wd [] wp") (simp add: wikidataResultsAfterMerge_def mergeLoop_append)
  then show ?thesis using i upd by auto
qed

lemma enhance_keptFields: "keptFields (enhanceResultWithWikipediaData p s) = keptFields p"
  using enhance_enhancedFrom [of p s] by (simp add: keptFields_def enhancedFrom_def)

lemma updateFirst_kept:
  "map keptFields (updateFirst P (\<lambda>m. enhanceResultWithWikipediaData m s) xs) = map keptFields xs"
  by (induction xs) (simp_all add: enhance_keptFields)

lemma mergeLoop_kept: "map keptFields (fst (mergeLoop wd pushed wp)) = map keptFields wd"
  by (induction wp arbitrary: wd pushed) (simp_all add: Let_def updateFirst_kept)

lemma updateFirst_nth_other:
  "i < length xs \<Longrightarrow> \<not> P (xs ! i) \<Longrightarrow> updateFirst P f xs ! i = xs ! i"
proof (induction xs arbitrary: i)
  case Nil
  then show ?case by simp
next
  case (Cons x xs)
  then show ?case by (cases i) auto
qed

lemma mergeLoop_untouched:
  assumes "i < length wd" "\<forall>s\<in>set wp. \<not> areResultsSimilar (wd ! i) s"
  shows "fst (mergeLoop wd pushed wp) ! i = wd ! i"
  using assms
proof (induction wp arbitrary: wd pushed)
  case Nil
  then show ?case by simp
next
  case (Cons s wp)
  let ?wd' = "updateFirst (\<lambda>d. areResultsSimilar d s)
                (\<lambda>m. enhanceResultWithWikipediaData m s) wd"
  have ns: "\<not> areResultsSimilar (wd ! i) s" using Cons.prems by simp
  have same: "?wd' ! i = wd ! i" using Cons.prems(1) ns by (rule updateFirst_nth_other)
  have "fst (mergeLoop ?wd' pushed wp) ! i = ?wd' ! i"
    using Cons.prems same by (intro Cons.IH) simp_all
  moreover have "fst (mergeLoop wd (pushed @ [s]) wp) ! i = wd ! i"
    using Cons.prems by (intro Cons.IH) simp_all
  ultimately show ?case using same by (simp add: Let_def)
qed

text \<open>
  C1, as amended. The merge output is the primary results, in order and possibly enhanced,
  followed by exactly the secondary results that are similar to no primary result, unchanged
  and in order; a secondary result similar to some primary result is omitted. The primary
  results start as they are given; the merge leaves their identity, title, release date,
  developer, publisher, platforms, genre, cover image, confidence and source as they are,
  and leaves a primary result similar to no secondary result wholly unchanged. Each
  secondary result \<open>s\<close> similar to some primary result, when its turn comes after the
  secondary results \<open>wp\<close>, enhances the first primary result similar to it and no other:
  the description is filled from \<open>s\<close> when the primary's is missing and that of \<open>s\<close> is
  not, \<open>dataSource.fallback = wikipedia\<close> and the attribution of \<open>s\<close> are recorded when
  \<open>s\<close> carries an attribution, series and modes are filled when absent or empty on the
  primary and present on \<open>s\<close>, and \<open>searchMetadata.enhancedWithWikipedia\<close> is set.
\<close>

theorem merge_enhances_or_appends:
  "mergeSearchResults wd wp
     = wikidataResultsAfterMerge wd wp @ filter (\<lambda>s. \<not> similarToSome wd s) wp
   \<and> length (wikidataResultsAfterMerge wd wp) = length wd
   \<and> wikidataResultsAfterMerge wd [] = wd
   \<and> map keptFields (wikidataResultsAfterMerge wd wp) = map keptFields wd
   \<and> (\<forall>i<length wd. (\<forall>x\<in>set wp. \<not> areResultsSimilar (wd ! i) x) \<longrightarrow>
          wikidataResultsAfterMerge wd wp ! i = wd ! i)
   \<and> (\<not> similarToSome wd s \<longrightarrow>
         wikidataResultsAfterMerge wd (wp @ [s]) = wikidataResultsAfterMerge wd wp)
   \<and> (similarToSome wd s \<longrightarrow>
         (\<exists>i<length wd.
            areResultsSimilar (wd ! i) s \<and> (\<forall>j<i. \<not> areResultsSimilar (wd ! j) s)
            \<and> wikidataResultsAfterMerge wd (wp @ [s])
                = (wikidataResultsAfterMerge wd wp)
                    [i := enhanceResultWithWikipediaData (wikidataResultsAfterMerge wd wp ! i) s]
            \<and> enhancedFrom (wikidataResultsAfterMerge wd wp ! i) s
                  (wikidataResultsAfterMerge wd (wp @ [s]) ! i)))"
proof (intro conjI impI allI)
  show "mergeSearchResults wd wp
     = wikidataResultsAfterMerge wd wp @ filter (\<lambda>s. \<not> similarToSome wd s) wp"
    by (rule merge_split)
  show len: "length (wikidataResultsAfterMerge wd wp) = length wd"
    by (simp add: wikidataResultsAfterMerge_def mergeLoop_length)
  show "wikidataResultsAfterMerge wd [] = wd"
    by (simp add: wikidataResultsAfterMerge_def)
  show "map keptFields (wikidataResultsAfterMerge wd wp) = map keptFields wd"
    by (simp add: wikidataResultsAfterMerge_def mergeLoop_kept)
  show "wikidataResultsAfterMerge wd wp ! i = wd ! i"
    if "i < length wd" "\<forall>x\<in>set wp. \<not> areResultsSimilar (wd ! i) x" for i
    using that by (simp add: wikidataResultsAfterMerge_def mergeLoop_untouched)
  show "wikidataResultsAfterMerge wd (wp @ [s]) = wikidataResultsAfterMerge wd wp"
    if "\<not> similarToSome wd s"
    using that by (rule after_append_unmatched)
  show "\<exists>i<length wd.
            areResultsSimilar (wd ! i) s \<and> (\<forall>j<i. \<not> areResultsSimilar (wd ! j) s)
            \<and> wikidataResultsAfterMerge wd (wp @ [s])
                = (wikidataResultsAfterMerge wd wp)
                    [i := enhanceResultWithWikipediaData (wikidataResultsAfterMerge wd wp ! i) s]
            \<and> enhancedFrom (wikidataResultsAfterMerge wd wp ! i) s
                  (wikidataResultsAfterMerge wd (wp @ [s]) ! i)"
    if "similarToSome wd s"
  proof -
    from after_append_matched [OF that, of wp] obtain i where
      i: "i < length wd" "areResultsSimilar (wd ! i) s" "\<forall>j<i. \<not> areResultsSimilar (wd ! j) s"
        "wikidataResultsAfterMerge wd (wp @ [s])
           = (wikidataResultsAfterMerge wd wp)
               [i := enhanceResultWithWikipediaData (wikidataResultsAfterMerge wd wp ! i) s]"
      by blast
    have "enhancedFrom (wikidataResultsAfterMerge wd wp ! i) s
            (wikidataResultsAfterMerge wd (wp @ [s]) ! i)"
      using i(1) i(4) len by (simp add: enhance_enhancedFrom)
    with i show ?thesis by blast
  qed
qed

lemma example_similar: "similarToSome [exampleDoom] exampleDoomWiki"
  by code_simp

theorem merge_enhances_or_appends_witness:
  "similarToSome [exampleDoom] exampleDoomWiki
   \<and> mergeSearchResults [exampleDoom] [] = [exampleDoom]
   \<and> wikidataResultsAfterMerge [exampleDoom] [exampleDoomWiki]
       = [enhanceResultWithWikipediaData exampleDoom exampleDoomWiki]
   \<and> map keptFields (wikidataResultsAfterMerge [exampleDoom] [exampleDoomWiki])
       = [keptFields exampleDoom]
   \<and> enhancedFrom exampleDoom exampleDoomWiki
        (wikidataResultsAfterMerge [exampleDoom] [exampleDoomWiki] ! 0)"
proof -
  have a: "map keptFields (wikidataResultsAfterMerge [exampleDoom] [exampleDoomWiki])
       = [keptFields exampleDoom]"
    using merge_enhances_or_appends [of "[exampleDoom]" "[exampleDoomWiki]" exampleDoomWiki]
    by simp
  have b: "similarToSome [exampleDoom] exampleDoomWiki
   \<and> mergeSearchResults [exampleDoom] [] = [exampleDoom]
   \<and> wikidataResultsAfterMerge [exampleDoom] [exampleDoomWiki]
       = [enhanceResultWithWikipediaData exampleDoom exampleDoomWiki]
   \<and> enhancedFrom exampleDoom exampleDoomWiki
        (wikidataResultsAfterMerge [exampleDoom] [exampleDoomWiki] ! 0)"
    using merge_enhances_or_appends [of "[exampleDoom]" "[]" exampleDoomWiki] example_similar
    by auto
  show ?thesis using a b by blast
qed

text \<open>
  The claim as first stated fails where the secondary result carries no attribution: the
  primary result is enhanced, and no fallback source is recorded on it.
\<close>

theorem merge_fallback_counterexample:
  "similarToSome [exampleDoom] exampleDoomWikiNoUrl
   \<and> length (mergeSearchResults [exampleDoom] [exampleDoomWikiNoUrl]) = 1
   \<and> fallbackOf (mergeSearchResults [exampleDoom] [exampleDoomWikiNoUrl] ! 0) = None"
  by code_simp

section \<open>Duplicates in the result list\<close>

lemma sort_sort: "sort (sort (xs :: string list)) = sort xs"
  by (simp add: sorted_sort_id)

lemma dedupKey_sortPlatforms: "dedupKey (sortPlatforms c) = dedupKey c"
  by (simp add: dedupKey_def sortPlatforms_def sort_sort split: option.splits)

lemma removeDuplicatesLoop_keys:
  "distinct (map dedupKey (removeDuplicatesLoop seen rs))
   \<and> set (map dedupKey (removeDuplicatesLoop seen rs)) \<inter> set seen = {}"
proof (induction rs arbitrary: seen)
  case Nil
  then show ?case by simp
next
  case (Cons r rs)
  show ?case
  proof (cases "dedupKey r \<in> set seen")
    case True
    then show ?thesis using Cons [of seen] by (simp add: Let_def)
  next
    case False
    then show ?thesis using Cons [of "dedupKey r # seen"]
      by (auto simp: Let_def dedupKey_sortPlatforms)
  qed
qed

lemma removeDuplicatesLoop_subset:
  "set (removeDuplicatesLoop seen rs) \<subseteq> sortPlatforms ` set rs"
  by (induction rs arbitrary: seen) (auto simp: Let_def)

lemma insertBack_set: "set (insertBack cmp x ys) = insert x (set ys)"
  by (induction ys) auto

lemma insertBack_distinct:
  "distinct (map f (insertBack cmp x ys)) = distinct (map f (x # ys))"
  by (induction ys) (auto simp: insertBack_set)

lemma foldl_insertBack_set:
  "set (foldl (\<lambda>sorted x. insertBack cmp x sorted) acc xs) = set acc \<union> set xs"
  by (induction xs arbitrary: acc) (auto simp: insertBack_set)

lemma foldl_insertBack_distinct:
  "distinct (map f (foldl (\<lambda>sorted x. insertBack cmp x sorted) acc xs))
     = distinct (map f (rev acc @ xs))"
proof (induction xs arbitrary: acc)
  case Nil
  then show ?case by (simp add: distinct_rev rev_map [symmetric])
next
  case (Cons x xs)
  have "distinct (map f (rev (insertBack cmp x acc) @ xs)) = distinct (map f (rev (x # acc) @ xs))"
    using insertBack_distinct [of f cmp x acc] insertBack_set [of cmp x acc]
    by (auto simp: distinct_rev rev_map [symmetric])
  then show ?case using Cons [of "insertBack cmp x acc"] by simp
qed

lemma arraySort_set: "set (arraySort cmp xs) = set xs"
  by (simp add: arraySort_def foldl_insertBack_set)

lemma arraySort_distinct: "distinct (map f (arraySort cmp xs)) = distinct (map f xs)"
  using foldl_insertBack_distinct [of f cmp "[]" xs]
  by (simp add: arraySort_def distinct_rev rev_map [symmetric])

lemma rank_distinct: "distinct (map dedupKey (rankAndDeduplicateResults rs))"
proof -
  have "distinct (map dedupKey (removeDuplicates rs))"
    using removeDuplicatesLoop_keys [of "[]" rs] by (simp add: removeDuplicates_def)
  then have "distinct (map dedupKey (arraySort compareResults (removeDuplicates rs)))"
    by (simp add: arraySort_distinct)
  then have "distinct (take 10 (map dedupKey (arraySort compareResults (removeDuplicates rs))))"
    by (rule distinct_take)
  then show ?thesis by (simp add: rankAndDeduplicateResults_def take_map)
qed

lemma rank_subset: "set (rankAndDeduplicateResults rs) \<subseteq> sortPlatforms ` set rs"
proof -
  have "set (rankAndDeduplicateResults rs) \<subseteq> set (arraySort compareResults (removeDuplicates rs))"
    by (simp add: rankAndDeduplicateResults_def set_take_subset)
  then show ?thesis
    using removeDuplicatesLoop_subset [of "[]" rs]
    by (auto simp: arraySort_set removeDuplicates_def)
qed


lemma common_platforms_iff:
  "(filter (\<lambda>p. p \<in> set ys) xs = []) = (set xs \<inter> set ys = {})"
  by (auto simp: filter_empty_conv)

lemma areResultsSimilar_sets:
  assumes "title a = title a'" "releaseDate a = releaseDate a'"
    "set (platformSet a) = set (platformSet a')"
    "title b = title b'" "releaseDate b = releaseDate b'"
    "set (platformSet b) = set (platformSet b')"
  shows "areResultsSimilar a b = areResultsSimilar a' b'"
  using assms by (simp add: areResultsSimilar_def Let_def common_platforms_iff)

lemma platformSet_sortPlatforms: "set (platformSet (sortPlatforms c)) = set (platformSet c)"
  by (simp add: platformSet_def sortPlatforms_def split: option.splits)

lemma sortPlatforms_keeps:
  "title (sortPlatforms c) = title c" "releaseDate (sortPlatforms c) = releaseDate c"
  "searchMetadata (sortPlatforms c) = searchMetadata c"
  by (simp_all add: sortPlatforms_def split: option.splits)

lemma sortPlatforms_similar:
  "areResultsSimilar (sortPlatforms a) (sortPlatforms b) = areResultsSimilar a b"
  by (rule areResultsSimilar_sets) (simp_all add: sortPlatforms_keeps platformSet_sortPlatforms)

lemma sortPlatforms_source: "sourceOf (sortPlatforms c) = sourceOf c"
  by (simp add: sourceOf_def sortPlatforms_keeps)

lemma crossSourceSimilar_sortPlatforms:
  "crossSourceSimilar (sortPlatforms a) (sortPlatforms b) = crossSourceSimilar a b"
  by (simp add: crossSourceSimilar_def sortPlatforms_similar sortPlatforms_source)

lemma includesStr_Nil [simp]: "includesStr s []"
  by (induction s) auto

lemma areResultsSimilar_sym: "areResultsSimilar a b = areResultsSimilar b a"
  by (auto simp: areResultsSimilar_def Let_def common_platforms_iff Int_commute)

lemma rank_cross:
  assumes "\<forall>a\<in>set rs. \<forall>b\<in>set rs. \<not> crossSourceSimilar a b"
  shows "\<forall>a\<in>set (rankAndDeduplicateResults rs). \<forall>b\<in>set (rankAndDeduplicateResults rs).
           \<not> crossSourceSimilar a b"
proof (intro ballI)
  fix a b
  assume "a \<in> set (rankAndDeduplicateResults rs)" "b \<in> set (rankAndDeduplicateResults rs)"
  then obtain a0 b0 where "a0 \<in> set rs" "a = sortPlatforms a0" "b0 \<in> set rs" "b = sortPlatforms b0"
    using rank_subset [of rs] by blast
  then show "\<not> crossSourceSimilar a b"
    using assms by (simp add: crossSourceSimilar_sortPlatforms)
qed

lemma rank_ok:
  assumes "\<forall>a\<in>set rs. \<forall>b\<in>set rs. \<not> crossSourceSimilar a b"
  shows "resultListOk (rankAndDeduplicateResults rs)"
  using rank_cross [OF assms] by (simp add: resultListOk_def rank_distinct list_all_iff)

lemma executeWikidataSearch_source:
  "\<forall>c\<in>set (fst (executeWikidataSearch e now st q)). sourceOf c = Some ''wikidata''"
  by (auto simp: executeWikidataSearch_def Let_def sourceOf_def split: sum.splits)

lemma executeFallbackSearch_source:
  "\<forall>c\<in>set (fst (executeFallbackSearch e now st q)). sourceOf c = Some ''wikipedia''"
  by (auto simp: executeFallbackSearch_def Let_def sourceOf_def split: sum.splits option.splits)

lemma enhance_source: "sourceOf (enhanceResultWithWikipediaData p s) = sourceOf p"
  using enhance_enhancedFrom [of p s] by (simp add: enhancedFrom_def)

lemma updateFirst_source:
  "map sourceOf (updateFirst P (\<lambda>m. enhanceResultWithWikipediaData m s) xs) = map sourceOf xs"
  by (induction xs) (simp_all add: enhance_source)

lemma mergeLoop_source: "map sourceOf (fst (mergeLoop wd pushed wp)) = map sourceOf wd"
  by (induction wp arbitrary: wd pushed) (simp_all add: Let_def updateFirst_source)

lemma merge_cross:
  assumes wd: "\<forall>c\<in>set wd. sourceOf c = Some ''wikidata''"
    and wp: "\<forall>c\<in>set wp. sourceOf c = Some ''wikipedia''"
  shows "\<forall>a\<in>set (mergeSearchResults wd wp). \<forall>b\<in>set (mergeSearchResults wd wp).
           \<not> crossSourceSimilar a b"
proof (intro ballI notI)
  fix a b
  let ?cur = "wikidataResultsAfterMerge wd wp"
  let ?app = "filter (\<lambda>s. \<not> similarToSome wd s) wp"
  assume a: "a \<in> set (mergeSearchResults wd wp)" and b: "b \<in> set (mergeSearchResults wd wp)"
    and x: "crossSourceSimilar a b"
  have split: "mergeSearchResults wd wp = ?cur @ ?app" by (rule merge_split)
  have len: "length ?cur = length wd"
    by (simp add: wikidataResultsAfterMerge_def mergeLoop_length)
  have src: "map sourceOf ?cur = map sourceOf wd"
    by (simp add: wikidataResultsAfterMerge_def mergeLoop_source)
  have cur_src: "\<forall>c\<in>set ?cur. sourceOf c = Some ''wikidata''"
  proof
    fix c assume "c \<in> set ?cur"
    then have "sourceOf c \<in> set (map sourceOf ?cur)" by simp
    then have "sourceOf c \<in> sourceOf ` set wd" by (simp only: src set_map)
    then show "sourceOf c = Some ''wikidata''" using wd by auto
  qed
  have sa: "sourceOf a = Some ''wikidata''" and sb: "sourceOf b = Some ''wikipedia''"
    and sim: "areResultsSimilar a b"
    using x by (auto simp: crossSourceSimilar_def areResultsSimilar_sym [of b a])
  have "a \<notin> set ?app" using sa wp by auto
  then have a_cur: "a \<in> set ?cur" using a split by auto
  have "b \<notin> set ?cur" using sb cur_src by auto
  then have b_app: "b \<in> set ?app" using b split by auto
  then have nb: "\<not> similarToSome wd b" by simp
  obtain i where i: "i < length ?cur" "a = ?cur ! i" using a_cur by (auto simp: in_set_conv_nth)
  have m: "map (\<lambda>d. areResultsSimilar d b) ?cur = map (\<lambda>d. areResultsSimilar d b) wd"
    by (simp add: wikidataResultsAfterMerge_def mergeLoop_similar)
  have "map (\<lambda>d. areResultsSimilar d b) ?cur ! i = map (\<lambda>d. areResultsSimilar d b) wd ! i"
    by (simp only: m)
  then have "areResultsSimilar (wd ! i) b" using i len sim by simp
  then have "similarToSome wd b" using i(1) len
    by (auto simp: similarToSome_def list_ex_iff)
  with nb show False by simp
qed


lemma list_all_update:
  "list_all P m \<Longrightarrow> P (k, v) \<Longrightarrow> list_all P (AList.update k v m)"
  by (induction m) auto

lemma list_all_delete: "list_all P m \<Longrightarrow> list_all P (AList.delete k m)"
  by (simp add: AList.delete_eq list_all_iff)

lemma list_all_filter: "list_all P m \<Longrightarrow> list_all P (filter Q m)"
  by (simp add: list_all_iff)

lemma cacheResult_ok:
  assumes "cacheOk st" "resultListOk rs"
  shows "cacheOk (cacheResult now st q rs)"
  using assms
  by (simp add: cacheOk_def cacheResult_def cleanCache_def Let_def list_all_update
      list_all_filter)

lemma cacheOk_calls [simp]: "cacheOk (st\<lparr>calls := cs\<rparr>) = cacheOk st"
  by (simp add: cacheOk_def)

lemma getCachedResult_ok:
  assumes "cacheOk st" "getCachedResult now st q = (r, st0)"
  shows "cacheOk st0 \<and> (case r of None \<Rightarrow> True | Some rs \<Rightarrow> resultListOk rs)"
proof (cases "map_of (searchCache st) (trim (toLowerCase q))")
  case None
  then show ?thesis using assms by (auto simp: getCachedResult_def Let_def)
next
  case (Some cached)
  then have "(trim (toLowerCase q), cached) \<in> set (searchCache st)" by (rule map_of_SomeD)
  then have ok: "resultListOk (cachedResults cached)"
    using assms(1) by (auto simp: cacheOk_def list_all_iff)
  have "cacheOk (st\<lparr>searchCache := AList.delete (trim (toLowerCase q)) (searchCache st)\<rparr>)"
    using assms(1) by (simp add: cacheOk_def list_all_delete)
  then show ?thesis using assms Some ok
    by (auto simp: getCachedResult_def Let_def split: if_splits)
qed

lemma executeWikidataSearch_cache:
  "cacheOk (snd (executeWikidataSearch e now st q)) = cacheOk st"
  by (simp add: executeWikidataSearch_def Let_def cacheOk_def split: sum.splits)

lemma executeFallbackSearch_cache:
  "cacheOk (snd (executeFallbackSearch e now st q)) = cacheOk st"
  by (simp add: executeFallbackSearch_def Let_def cacheOk_def split: sum.splits option.splits)

lemma same_source_cross:
  assumes "\<forall>c\<in>set rs. sourceOf c = src"
  shows "\<forall>a\<in>set rs. \<forall>b\<in>set rs. \<not> crossSourceSimilar a b"
  using assms by (auto simp: crossSourceSimilar_def)

lemma searchGamePrimary_ok:
  assumes "cacheOk st" "searchGamePrimary e now st q = Inr (rs, st')"
  shows "resultListOk rs \<and> cacheOk st'"
proof -
  obtain wd st1 where w: "executeWikidataSearch e now st q = (wd, st1)"
    by (cases "executeWikidataSearch e now st q")
  have wsrc: "\<forall>c\<in>set wd. sourceOf c = Some ''wikidata''"
    using executeWikidataSearch_source [of e now st q] w by simp
  have c1: "cacheOk st1" using executeWikidataSearch_cache [of e now st q] w assms(1) by simp
  show ?thesis
  proof (cases "length wd > 0 \<and> hasGoodQualityResults wd")
    case True
    have "resultListOk (rankAndDeduplicateResults wd)"
      by (rule rank_ok) (rule same_source_cross [OF wsrc])
    then show ?thesis using True w assms(2) c1
      by (auto simp: searchGamePrimary_def Let_def cacheResult_ok)
  next
    case False
    obtain wp st2 where f: "executeFallbackSearch e now st1 q = (wp, st2)"
      by (cases "executeFallbackSearch e now st1 q")
    have psrc: "\<forall>c\<in>set wp. sourceOf c = Some ''wikipedia''"
      using executeFallbackSearch_source [of e now st1 q] f by simp
    have c2: "cacheOk st2" using executeFallbackSearch_cache [of e now st1 q] f c1 by simp
    have "resultListOk (rankAndDeduplicateResults (mergeSearchResults wd wp))"
      by (rule rank_ok) (rule merge_cross [OF wsrc psrc])
    then show ?thesis using False w f assms(2) c2
      by (auto simp: searchGamePrimary_def Let_def cacheResult_ok)
  qed
qed

text \<open>
  C4, as amended. For every search call on a manager whose cached lists have the property
  (a new manager, or one that has only run searches), the result list has no two entries with
  the same deduplication key (lower-cased title, release date, sorted platforms joined), and
  no entry of Wikipedia origin in it is similar to an entry of Wikidata origin; the cache
  keeps the property.
\<close>

theorem search_results_no_exact_duplicates:
  assumes "cacheOk st"
  shows "resultListOk (fst (searchGame e now st q)) \<and> cacheOk (snd (searchGame e now st q))"
proof (cases "q = [] \<or> length (trim q) < 2")
  case True
  then show ?thesis using assms by (simp add: searchGame_def resultListOk_def)
next
  case False
  obtain r st0 where g: "getCachedResult now st (trim q) = (r, st0)"
    by (cases "getCachedResult now st (trim q)")
  have ok0: "cacheOk st0" and okr: "case r of None \<Rightarrow> True | Some rs \<Rightarrow> resultListOk rs"
    using getCachedResult_ok [OF assms g] by simp_all
  show ?thesis
  proof (cases r)
    case (Some cached)
    then show ?thesis using False g ok0 okr by (simp add: searchGame_def Let_def)
  next
    case None
    obtain rs st' where p: "searchGamePrimary e now st0 (trim q) = Inr (rs, st')"
      using searchGamePrimary_shape [of e now st0 "trim q"] by blast
    then show ?thesis using False g None searchGamePrimary_ok [OF ok0 p]
      by (simp add: searchGame_def Let_def)
  qed
qed


theorem search_results_no_exact_duplicates_witness:
  "cacheOk emptyState
   \<and> resultListOk (fst (searchGame doomEnv 1000 emptyState ''doom''))
   \<and> cacheOk (snd (searchGame doomEnv 1000 emptyState ''doom''))"
proof -
  have h: "cacheOk emptyState" by (simp add: cacheOk_def emptyState_def)
  show ?thesis
    using h search_results_no_exact_duplicates [OF h, of doomEnv 1000 "''doom''"] by simp
qed

text \<open>
  The claim as first stated fails: two Wikidata results whose titles contain one another,
  Doom and Doom II, are similar and both are returned.
\<close>

theorem search_results_similar_counterexample:
  "length (fst (searchGame doomEnv 1000 emptyState ''doom'')) = 3
   \<and> areResultsSimilar (fst (searchGame doomEnv 1000 emptyState ''doom'') ! 0)
        (fst (searchGame doomEnv 1000 emptyState ''doom'') ! 1)"
  by code_simp

section \<open>The Wikipedia service without an article or without an infobox\<close>

lemma mapToGameDataModel_empty:
  "mapToGameDataModel emptyInfobox pc =
     \<lparr>ident = None, title = pageTitle pc, releaseDate = Str [], developer = Some [],
      publisher = Some [], platforms = Some [], genre = Some [],
      coverImage = Some (orEmpty (image pc)), description = Some (orEmpty (extractText pc)),
      series = Some [], modes = Some [], wikidataId = None,
      dataSource = Some \<lparr>primary = Some ''wikipedia'', attribution = url pc,
                         fallback = None, wikipediaAttribution = None\<rparr>,
      searchMetadata = None\<rparr>"
  by (simp add: mapToGameDataModel_def emptyInfobox_def arrayOrEmpty_def)

text \<open>
  C5, as amended. When no matching article is found, the Wikipedia adapter returns the empty
  sequence. When the article and its wikitext are fetched and nothing is parsed from the
  infobox, the adapter returns exactly one candidate, built from the page alone: the title,
  lead extract, image and URL of the page, and empty values for the infobox fields.
\<close>

theorem wikipedia_adapter_outcomes:
  "(findGamePage w q = None \<longrightarrow>
      fst (executeFallbackSearch (withWikipediaService w e) now st q) = [])
   \<and> (\<forall>page pc wikitext.
         findGamePage w q = Some page \<and> getPageContent w (hitTitle page) = Inr pc
         \<and> getPageWikitext w (hitTitle page) = Inr wikitext
         \<and> parseInfoBox w wikitext = emptyInfobox \<longrightarrow>
         (\<exists>c. fst (executeFallbackSearch (withWikipediaService w e) now st q) = [c]
              \<and> title c = pageTitle pc
              \<and> description c = Some (orEmpty (extractText pc))
              \<and> coverImage c = Some (orEmpty (image pc))
              \<and> attributionOf c = url pc
              \<and> sourceOf c = Some ''wikipedia''
              \<and> releaseDate c = Str [] \<and> developer c = Some [] \<and> publisher c = Some []
              \<and> platforms c = Some [] \<and> genre c = Some [] \<and> series c = Some []
              \<and> modes c = Some []))"
proof (intro conjI impI allI)
  assume "findGamePage w q = None"
  then show "fst (executeFallbackSearch (withWikipediaService w e) now st q) = []"
    by (simp add: executeFallbackSearch_def withWikipediaService_def
        wikipediaExtractGameMetadata_def Let_def)
next
  fix page pc wikitext
  assume h: "findGamePage w q = Some page \<and> getPageContent w (hitTitle page) = Inr pc
         \<and> getPageWikitext w (hitTitle page) = Inr wikitext
         \<and> parseInfoBox w wikitext = emptyInfobox"
  then have "wikipediaExtractGameMetadata w q = Some (mapToGameDataModel emptyInfobox pc)"
    by (simp add: wikipediaExtractGameMetadata_def)
  then show "\<exists>c. fst (executeFallbackSearch (withWikipediaService w e) now st q) = [c]
              \<and> title c = pageTitle pc
              \<and> description c = Some (orEmpty (extractText pc))
              \<and> coverImage c = Some (orEmpty (image pc))
              \<and> attributionOf c = url pc
              \<and> sourceOf c = Some ''wikipedia''
              \<and> releaseDate c = Str [] \<and> developer c = Some [] \<and> publisher c = Some []
              \<and> platforms c = Some [] \<and> genre c = Some [] \<and> series c = Some []
              \<and> modes c = Some []"
    by (simp add: executeFallbackSearch_def withWikipediaService_def Let_def
        mapToGameDataModel_empty attributionOf_def sourceOf_def)
qed

lemma celeste_find:
  "findGamePage celesteWikipedia ''Celeste''
     = Some \<lparr>hitTitle = ''Celeste'', snippet = ''Celeste is a 2018 platform video game''\<rparr>"
  by code_simp

lemma celeste_content: "getPageContent celesteWikipedia ''Celeste'' = Inr celestePage"
  by (simp add: celesteWikipedia_def)

lemma celeste_wikitext:
  "getPageWikitext celesteWikipedia ''Celeste'' = Inr ''Celeste is a platform game.''"
  by (simp add: celesteWikipedia_def)

lemma celeste_infobox:
  "parseInfoBox celesteWikipedia ''Celeste is a platform game.'' = emptyInfobox"
  by (simp add: parseInfoBox_def celesteWikipedia_def)

lemma noArticle_find: "findGamePage noArticleWikipedia ''Celeste'' = None"
  by (simp add: findGamePage_def noArticleWikipedia_def)

theorem wikipedia_adapter_outcomes_witness:
  "findGamePage noArticleWikipedia ''Celeste'' = None
   \<and> fst (executeFallbackSearch (withWikipediaService noArticleWikipedia throwingEnv) 1000
             emptyState ''Celeste'') = []
   \<and> parseInfoBox celesteWikipedia ''Celeste is a platform game.'' = emptyInfobox
   \<and> map title (fst (executeFallbackSearch (withWikipediaService celesteWikipedia throwingEnv)
                        1000 emptyState ''Celeste'')) = [Some ''Celeste'']"
proof -
  have a: "fst (executeFallbackSearch (withWikipediaService noArticleWikipedia throwingEnv) 1000
             emptyState ''Celeste'') = []"
    using wikipedia_adapter_outcomes [of noArticleWikipedia "''Celeste''" throwingEnv 1000 emptyState]
      noArticle_find by blast
  have h: "findGamePage celesteWikipedia ''Celeste''
             = Some \<lparr>hitTitle = ''Celeste'', snippet = ''Celeste is a 2018 platform video game''\<rparr>
           \<and> getPageContent celesteWikipedia
                 (hitTitle \<lparr>hitTitle = ''Celeste'', snippet = ''Celeste is a 2018 platform video game''\<rparr>)
               = Inr celestePage
           \<and> getPageWikitext celesteWikipedia
                 (hitTitle \<lparr>hitTitle = ''Celeste'', snippet = ''Celeste is a 2018 platform video game''\<rparr>)
               = Inr ''Celeste is a platform game.''
           \<and> parseInfoBox celesteWikipedia ''Celeste is a platform game.'' = emptyInfobox"
    using celeste_find celeste_content celeste_wikitext celeste_infobox by simp
  have "\<exists>c. fst (executeFallbackSearch (withWikipediaService celesteWikipedia throwingEnv) 1000
                  emptyState ''Celeste'') = [c] \<and> title c = pageTitle celestePage"
    using wikipedia_adapter_outcomes [of celesteWikipedia "''Celeste''" throwingEnv 1000 emptyState] h
    by blast
  then obtain c where c: "fst (executeFallbackSearch (withWikipediaService celesteWikipedia throwingEnv) 1000
                  emptyState ''Celeste'') = [c]" "title c = pageTitle celestePage" by blast
  have b: "map title (fst (executeFallbackSearch (withWikipediaService celesteWikipedia throwingEnv)
                        1000 emptyState ''Celeste'')) = [Some ''Celeste'']"
    by (simp add: c celestePage_def)
  show ?thesis using a b noArticle_find celeste_infobox by blast
qed

text \<open>
  The claim as first stated fails: with an empty infobox the adapter still returns one
  candidate.
\<close>

lemma celeste_metadata:
  "wikipediaExtractGameMetadata celesteWikipedia ''Celeste''
     = Some (mapToGameDataModel emptyInfobox celestePage)"
  by (simp add: wikipediaExtractGameMetadata_def celeste_find celeste_content celeste_wikitext
      celeste_infobox)

theorem wikipedia_empty_infobox_counterexample:
  "parseInfoBox celesteWikipedia ''Celeste is a platform game.'' = emptyInfobox
   \<and> length (fst (executeFallbackSearch (withWikipediaService celesteWikipedia throwingEnv)
                     1000 emptyState ''Celeste'')) = 1"
  by (simp add: celeste_infobox executeFallbackSearch_def withWikipediaService_def Let_def
      celeste_metadata)

section \<open>What the pipeline changes in place\<close>

lemma sortPlatforms_frame:
  "sortPlatforms c = c\<lparr>platforms := platforms (sortPlatforms c)\<rparr>
   \<and> map_option sort (platforms (sortPlatforms c)) = map_option sort (platforms c)"
  by (simp add: sortPlatforms_def sort_sort split: option.splits)

text \<open>
  C9, as amended. The merge assigns only to primary results that are similar to a secondary
  result, and only to their description, data source, series, modes and search metadata:
  every other field of every primary result, the platforms included, is unchanged, and a
  primary result similar to no secondary result is left as it was. Deduplication leaves
  every field other than the platforms array unchanged and keeps the elements of that
  array; ranking returns results as deduplication left them.
\<close>

theorem pipeline_mutation_frame:
  "map keptFields (wikidataResultsAfterMerge wd wp) = map keptFields wd
   \<and> (\<forall>i<length wd. (\<forall>s\<in>set wp. \<not> areResultsSimilar (wd ! i) s) \<longrightarrow>
          wikidataResultsAfterMerge wd wp ! i = wd ! i)
   \<and> length (resultsAfterRemoveDuplicates rs) = length rs
   \<and> (\<forall>i<length rs.
          resultsAfterRemoveDuplicates rs ! i
            = (rs ! i)\<lparr>platforms := platforms (resultsAfterRemoveDuplicates rs ! i)\<rparr>
          \<and> map_option sort (platforms (resultsAfterRemoveDuplicates rs ! i))
              = map_option sort (platforms (rs ! i)))
   \<and> set (rankAndDeduplicateResults rs) \<subseteq> set (resultsAfterRemoveDuplicates rs)"
proof (intro conjI allI impI)
  show "map keptFields (wikidataResultsAfterMerge wd wp) = map keptFields wd"
    by (simp add: wikidataResultsAfterMerge_def mergeLoop_kept)
  show "wikidataResultsAfterMerge wd wp ! i = wd ! i"
    if "i < length wd" "\<forall>s\<in>set wp. \<not> areResultsSimilar (wd ! i) s" for i
    using that by (simp add: wikidataResultsAfterMerge_def mergeLoop_untouched)
  show "length (resultsAfterRemoveDuplicates rs) = length rs"
    by (simp add: resultsAfterRemoveDuplicates_def)
  show "resultsAfterRemoveDuplicates rs ! i
            = (rs ! i)\<lparr>platforms := platforms (resultsAfterRemoveDuplicates rs ! i)\<rparr>"
    if "i < length rs" for i
    using that sortPlatforms_frame [of "rs ! i"] by (simp add: resultsAfterRemoveDuplicates_def)
  show "map_option sort (platforms (resultsAfterRemoveDuplicates rs ! i))
              = map_option sort (platforms (rs ! i))"
    if "i < length rs" for i
    using that sortPlatforms_frame [of "rs ! i"] by (simp add: resultsAfterRemoveDuplicates_def)
  show "set (rankAndDeduplicateResults rs) \<subseteq> set (resultsAfterRemoveDuplicates rs)"
    using rank_subset [of rs] by (simp add: resultsAfterRemoveDuplicates_def)
qed

theorem pipeline_mutation_frame_witness:
  "(0 :: nat) < length [exampleQuake, exampleDoom]
   \<and> \<not> areResultsSimilar ([exampleQuake, exampleDoom] ! 0) exampleDoomWiki
   \<and> wikidataResultsAfterMerge [exampleQuake, exampleDoom] [exampleDoomWiki] ! 0 = exampleQuake
   \<and> map keptFields (wikidataResultsAfterMerge [exampleQuake, exampleDoom] [exampleDoomWiki])
       = map keptFields [exampleQuake, exampleDoom]
   \<and> map_option sort (platforms (resultsAfterRemoveDuplicates [exampleQuake, exampleDoom] ! 0))
       = map_option sort (platforms ([exampleQuake, exampleDoom] ! 0))"
proof -
  have ns: "\<not> areResultsSimilar ([exampleQuake, exampleDoom] ! 0) exampleDoomWiki"
    by code_simp
  show ?thesis
    using ns pipeline_mutation_frame
      [of "[exampleQuake, exampleDoom]" "[exampleDoomWiki]" "[exampleQuake, exampleDoom]"]
    by simp
qed

text \<open>
  The claim as first stated fails: after a merge the matched primary result differs from
  what it was, and after deduplication the platforms of a result are in another order.
\<close>

theorem pipeline_mutation_counterexample:
  "wikidataResultsAfterMerge [exampleDoom] [exampleDoomWiki] \<noteq> [exampleDoom]
   \<and> resultsAfterRemoveDuplicates [exampleDoom] \<noteq> [exampleDoom]"
  by code_simp

section \<open>A row without a label\<close>

text \<open>
  C6. The claim says that a candidate whose title cannot be determined is discarded before
  scoring. The code does otherwise: for a row without a label \<open>parseWikidataResponse\<close>
  puts the placeholder title, the candidate is scored and returned by the search, and
  \<open>isValidGameData\<close>, which rejects exactly such a candidate, is never applied.
\<close>

theorem placeholder_title_reaches_scoring:
  "map (\<lambda>c. (title c, platforms c, searchMetadata c, isValidGameData c))
     (fst (executeWikidataSearch unlabelledEnv 1000 emptyState ''doom''))
   = [(Some ''Unknown Title'', Some [''PC''],
       Some \<lparr>source = Some ''wikidata'', query = Some ''doom'', timestamp = Some 1000,
             confidence = Some (11 / 40), enhancedWithWikipedia = None\<rparr>,
       False)]
   \<and> map title (fst (searchGame unlabelledEnv 1000 emptyState ''doom''))
       = [Some ''Unknown Title'']"
  by code_simp

end
